theory Spec2Isabelle
  imports Main
begin

section \<open>The deployment script \<open>scripts/deploy.ts\<close>\<close>

text \<open>
  A shallow embedding of the class \<open>CloudflareDeploymentManager\<close>. Every method is a
  function from the state it can touch to its outcome and the new state. The console, the
  file system, child processes and the Cloudflare API are outside the script: the calls
  made to them are recorded in a trace, and what they answer is a parameter of the model
  (\<open>host\<close> for the machine, \<open>cloudflare_api\<close> for the control plane, \<open>jsonc\<close> for the
  \<open>jsonc-parser\<close> package), so that every theorem about a method holds for every
  behaviour of the outside world unless it says otherwise.
\<close>

subsection \<open>Strings\<close>

text \<open>
  A string of the script is a sequence of UTF-16 code units and \<open>.length\<close> counts them. A
  character of the model is a code unit below 256, so the strings of the model are the
  strings of the script over these code units, with the same length; a string with another
  code unit is outside the model. The messages of the script are written without their
  pictographs.
\<close>

fun startsWith :: "string \<Rightarrow> string \<Rightarrow> bool" where
  "startsWith s [] = True"
| "startsWith [] (p # ps) = False"
| "startsWith (c # cs) (p # ps) = (c = p \<and> startsWith cs ps)"

text \<open>\<open>s.indexOf(p)\<close>: the first position at which \<open>p\<close> occurs in \<open>s\<close>, or \<open>-1\<close>.\<close>

fun indexOf_from :: "nat \<Rightarrow> string \<Rightarrow> string \<Rightarrow> int" where
  "indexOf_from i [] p = (if p = [] then int i else - 1)"
| "indexOf_from i (c # cs) p =
     (if startsWith (c # cs) p then int i else indexOf_from (Suc i) cs p)"

definition indexOf :: "string \<Rightarrow> string \<Rightarrow> int" where
  "indexOf s p = indexOf_from 0 s p"

text \<open>\<open>s.includes(p)\<close>.\<close>

fun includes_str :: "string \<Rightarrow> string \<Rightarrow> bool" where
  "includes_str [] p = (p = [])"
| "includes_str (c # cs) p = (startsWith (c # cs) p \<or> includes_str cs p)"

text \<open>\<open>xs.join(sep)\<close>.\<close>

fun join :: "string \<Rightarrow> string list \<Rightarrow> string" where
  "join sep [] = []"
| "join sep [x] = x"
| "join sep (x # y # ys) = x @ sep @ join sep (y # ys)"

definition digit_char :: "nat \<Rightarrow> char" where
  "digit_char d = ''0123456789'' ! (d mod 10)"

text \<open>The decimal text of a natural number. It is what a template literal and
  \<open>JSON.stringify\<close> print for a number that is an integer below \<open>2^53\<close>.\<close>

fun string_of_nat :: "nat \<Rightarrow> string" where
  "string_of_nat n =
     (if n < 10 then [digit_char n] else string_of_nat (n div 10) @ [digit_char (n mod 10)])"

declare string_of_nat.simps [simp del]

text \<open>
  The code units that \<open>parseInt\<close> skips at the start (\<open>WhiteSpace\<close> and \<open>LineTerminator\<close>
  of the language): below 256 these are TAB, LF, VT, FF, CR, the space and the no-break
  space \<open>U+00A0\<close>. The others (\<open>U+1680\<close>, \<open>U+2000\<close> to \<open>U+200A\<close>, \<open>U+2028\<close>,
  \<open>U+2029\<close>, \<open>U+202F\<close>, \<open>U+205F\<close>, \<open>U+3000\<close>, \<open>U+FEFF\<close>) are not characters of the
  model.
\<close>

definition isWhiteSpace :: "char \<Rightarrow> bool" where
  "isWhiteSpace c =
    (c \<in> set [CHR 0x09, CHR 0x0A, CHR 0x0B, CHR 0x0C, CHR 0x0D, CHR 0x20, CHR 0xA0])"

definition isDigit :: "char \<Rightarrow> bool" where
  "isDigit c = (c \<in> set ''0123456789'')"

definition digit_val :: "char \<Rightarrow> nat" where
  "digit_val c = of_char c - 48"

definition digits_val :: "string \<Rightarrow> nat" where
  "digits_val ds = foldl (\<lambda>acc c. 10 * acc + digit_val c) 0 ds"

text \<open>
  \<open>parseInt(s, 10)\<close>: leading white space is skipped, one sign is read, then the longest
  run of decimal digits; \<open>None\<close> is \<open>NaN\<close> (no digit). Whatever follows the digits is
  ignored. The result of the model is the integer that the sign and the digits denote. The
  number the script holds is the double nearest to it: the same integer when it is below
  \<open>2^53\<close> in absolute value, and otherwise a number of the same sign that is not zero and
  not \<open>NaN\<close>. So the tests \<open>isNaN(n)\<close> and \<open>n <= 0\<close> of the script are decided by the
  integer (\<open>-0 <= 0\<close> holds as \<open>0 \<le> 0\<close> does); the text of a number of \<open>2^53\<close> or more is
  left to the engine (\<open>number_text\<close> below).
\<close>

definition parseInt :: "string \<Rightarrow> int option" where
  "parseInt s =
    (let s1 = dropWhile isWhiteSpace s;
         neg = (case s1 of c # _ \<Rightarrow> c = CHR ''-'' | [] \<Rightarrow> False);
         s2 = (case s1 of c # r \<Rightarrow> (if c = CHR ''-'' \<or> c = CHR ''+'' then r else s1) | [] \<Rightarrow> s1);
         ds = takeWhile isDigit s2
     in if ds = [] then None
        else Some (if neg then - int (digits_val ds) else int (digits_val ds)))"

subsection \<open>Thrown values and errors\<close>

text \<open>
  A \<open>catch (error: any)\<close> can receive anything. The script looks at \<open>error?.status\<close> and
  \<open>error?.message\<close> only, so a thrown value is \<open>null\<close>/\<open>undefined\<close> or an object with
  these two optional properties (\<open>None\<close> is \<open>undefined\<close>).
\<close>

datatype thrown = Nullish | Thrown "int option" "string option"

fun opt_status :: "thrown \<Rightarrow> int option" where
  "opt_status Nullish = None"
| "opt_status (Thrown s m) = s"

fun opt_message :: "thrown \<Rightarrow> string option" where
  "opt_message Nullish = None"
| "opt_message (Thrown s m) = m"

text \<open>\<open>error instanceof Error ? error.message : String(error)\<close>, as far as the model
  tells thrown values apart.\<close>

definition describe :: "thrown \<Rightarrow> string" where
  "describe e = (case opt_message e of Some m \<Rightarrow> m | None \<Rightarrow> ''[thrown value]'')"

definition TypeError :: thrown where
  "TypeError = Thrown None (Some ''TypeError: cannot read properties of null or undefined'')"

definition new_Error :: "string \<Rightarrow> thrown" where
  "new_Error m = Thrown None (Some m)"

text \<open>What leaves a method: a \<open>DeploymentError\<close> (message and cause) or any other value.\<close>

datatype exn = DeploymentError string "thrown option" | Raised thrown

fun exn_message :: "exn \<Rightarrow> string" where
  "exn_message (DeploymentError m c) = m"
| "exn_message (Raised e) = describe e"

subsection \<open>The outside world\<close>

datatype event =
    Log string
  | Warn string
  | ErrorLog string
  | ExistsSync string
  | ReadFile string
  | WriteFile string string
  | Mkdir string
  | Exec string bool
  | TokenVerify string
  | TokenIssue string
  | NamespaceGet string
  | NamespaceCreate string
  | GatewayGet string string
  | GatewayCreate string string bool
  | Exit nat

datatype fs_node = File string | Dir

type_synonym filesystem = "string \<rightharpoonup> fs_node"

type_synonym process_env = "string \<rightharpoonup> string"

text \<open>
  The machine: which paths cannot be read or written, the error a failing file-system call
  throws, what a child process does (\<open>execSync\<close> in a working directory: it throws,
  or completes and leaves the files as returned), and the text the engine gives, in a
  template literal, to the number it holds for an integer of \<open>2^53\<close> or more (the nearest
  double, printed with the shortest digits, an exponent from \<open>10^21\<close> on, or \<open>Infinity\<close>).
\<close>

record host =
  unreadable :: "string \<Rightarrow> bool"
  unwritable :: "string \<Rightarrow> bool"
  io_error :: "string \<Rightarrow> thrown"
  exec :: "string \<Rightarrow> string \<Rightarrow> filesystem \<Rightarrow> thrown + filesystem"
  large_number_text :: "nat \<Rightarrow> string"

text \<open>The integers below \<open>2^53\<close>, which a number holds exactly (\<open>Number.isSafeInteger\<close>).\<close>

definition safe_integer :: "nat \<Rightarrow> bool" where
  "safe_integer n = (int n < 2 ^ 53)"

text \<open>\<open>`${n}`\<close> for the number that \<open>parseInt\<close> returns for a positive integer.\<close>

definition number_text :: "host \<Rightarrow> nat \<Rightarrow> string" where
  "number_text h n = (if safe_integer n then string_of_nat n else large_number_text h n)"

record world =
  files :: filesystem
  trace :: "event list"

definition emit :: "event \<Rightarrow> world \<Rightarrow> world" where
  "emit e w = w\<lparr>trace := trace w @ [e]\<rparr>"

definition existsSync :: "string \<Rightarrow> world \<Rightarrow> bool \<times> world" where
  "existsSync p w = (files w p \<noteq> None, emit (ExistsSync p) w)"

definition readFileSync :: "host \<Rightarrow> string \<Rightarrow> world \<Rightarrow> (thrown + string) \<times> world" where
  "readFileSync h p w =
    (case files w p of
       Some (File c) \<Rightarrow> if unreadable h p then (Inl (io_error h p), emit (ReadFile p) w)
                        else (Inr c, emit (ReadFile p) w)
     | _ \<Rightarrow> (Inl (io_error h p), emit (ReadFile p) w))"

definition writeFileSync :: "host \<Rightarrow> string \<Rightarrow> string \<Rightarrow> world \<Rightarrow> (thrown + unit) \<times> world" where
  "writeFileSync h p c w =
    (if unwritable h p \<or> files w p = Some Dir then (Inl (io_error h p), emit (WriteFile p c) w)
     else (Inr (), emit (WriteFile p c) (w\<lparr>files := (files w)(p \<mapsto> File c)\<rparr>)))"

definition mkdirSync :: "host \<Rightarrow> string \<Rightarrow> world \<Rightarrow> (thrown + unit) \<times> world" where
  "mkdirSync h p w =
    (if unwritable h p \<or> (\<exists>c. files w p = Some (File c)) then (Inl (io_error h p), emit (Mkdir p) w)
     else (Inr (), emit (Mkdir p) (w\<lparr>files := (files w)(p \<mapsto> Dir)\<rparr>)))"

definition execSync :: "host \<Rightarrow> string \<Rightarrow> string \<Rightarrow> world \<Rightarrow> (thrown + unit) \<times> world" where
  "execSync h cwd cmd w =
    (case exec h cwd cmd (files w) of
       Inl e \<Rightarrow> (Inl e, emit (Exec cmd False) w)
     | Inr fs \<Rightarrow> (Inr (), emit (Exec cmd True) (w\<lparr>files := fs\<rparr>)))"

text \<open>
  The control plane. A response of \<open>fetch\<close> has the \<open>ok\<close> flag, the status text and the
  body \<open>json()\<close> resolves to (or the value it rejects with); of the body the script reads
  \<open>success\<close>, \<open>result.value\<close> and \<open>errors[0].message\<close>. The calls of the SDK resolve or
  reject with a thrown value; the gateway calls also depend on the API token of the SDK
  instance that makes them.
\<close>

record api_body =
  success :: bool
  result_value :: "string option"
  first_error :: "string option"

datatype response = Response bool string "thrown + api_body"

record cloudflare_api =
  namespaces_get :: "string \<Rightarrow> thrown + unit"
  namespaces_create :: "string \<Rightarrow> thrown + unit"
  aiGateway_get :: "string \<Rightarrow> string \<Rightarrow> thrown + unit"
  aiGateway_create :: "string \<Rightarrow> string \<Rightarrow> bool \<Rightarrow> thrown + unit"
  tokens_verify :: "string \<Rightarrow> thrown + response"
  tokens_issue :: "string \<Rightarrow> thrown + response"

subsection \<open>Configuration and environment\<close>

text \<open>The interface \<open>WranglerConfig\<close>, with the fields the script reads.\<close>

record dispatch_namespace =
  ns_binding :: string
  namespace :: string

record r2_bucket =
  binding :: string
  bucket_name :: string

record wrangler_config =
  name :: string
  dispatch_namespaces :: "dispatch_namespace list option"
  r2_buckets :: "r2_bucket list option"

record environment_config =
  CLOUDFLARE_API_TOKEN :: string
  CLOUDFLARE_ACCOUNT_ID :: string
  TEMPLATES_REPOSITORY :: string
  CLOUDFLARE_AI_GATEWAY :: "string option"
  CLOUDFLARE_AI_GATEWAY_URL :: "string option"
  CLOUDFLARE_AI_GATEWAY_TOKEN :: "string option"
  MAX_SANDBOX_INSTANCES :: "string option"

text \<open>A string that may be \<open>undefined\<close> is truthy when it is present and not empty.\<close>

definition truthy :: "string option \<Rightarrow> bool" where
  "truthy v = (case v of None \<Rightarrow> False | Some s \<Rightarrow> s \<noteq> [])"

definition requiredVars :: "string list" where
  "requiredVars = [''CLOUDFLARE_API_TOKEN'', ''CLOUDFLARE_ACCOUNT_ID'', ''TEMPLATES_REPOSITORY'']"

definition missing_message :: "string list \<Rightarrow> string" where
  "missing_message missingVars =
     ''Missing required environment variables: '' @ join '', '' missingVars @ ''\<newline>'' @
     ''Please ensure all required secrets are configured in your deployment.''"

definition validateEnvironment :: "process_env \<Rightarrow> world \<Rightarrow> (exn + unit) \<times> world" where
  "validateEnvironment penv w =
    (let missingVars = filter (\<lambda>varName. \<not> truthy (penv varName)) requiredVars in
     if length missingVars > 0 then (Inl (DeploymentError (missing_message missingVars) None), w)
     else (Inr (), emit (Log ''Environment variables validation passed'') w))"

definition getEnvironmentVariables :: "process_env \<Rightarrow> environment_config" where
  "getEnvironmentVariables penv =
    \<lparr> CLOUDFLARE_API_TOKEN = (case penv ''CLOUDFLARE_API_TOKEN'' of Some v \<Rightarrow> v | None \<Rightarrow> []),
      CLOUDFLARE_ACCOUNT_ID = (case penv ''CLOUDFLARE_ACCOUNT_ID'' of Some v \<Rightarrow> v | None \<Rightarrow> []),
      TEMPLATES_REPOSITORY = (case penv ''TEMPLATES_REPOSITORY'' of Some v \<Rightarrow> v | None \<Rightarrow> []),
      CLOUDFLARE_AI_GATEWAY = penv ''CLOUDFLARE_AI_GATEWAY'',
      CLOUDFLARE_AI_GATEWAY_URL = penv ''CLOUDFLARE_AI_GATEWAY_URL'',
      CLOUDFLARE_AI_GATEWAY_TOKEN = penv ''CLOUDFLARE_AI_GATEWAY_TOKEN'',
      MAX_SANDBOX_INSTANCES = penv ''MAX_SANDBOX_INSTANCES'' \<rparr>"

text \<open>The instance: \<open>this.config\<close>, \<open>this.env\<close> and the API token of the separate SDK
  instance \<open>this.aiGatewayCloudflare\<close> (\<open>None\<close> while it is undefined). The main SDK
  instance \<open>this.cloudflare\<close> uses \<open>CLOUDFLARE_API_TOKEN\<close>.\<close>

record manager =
  config :: wrangler_config
  env :: environment_config
  aiGatewayCloudflare :: "string option"

definition PROJECT_ROOT :: string where
  "PROJECT_ROOT = ''/project''"

definition path_join :: "string \<Rightarrow> string \<Rightarrow> string" where
  "path_join a b = a @ ''/'' @ b"

definition wranglerPath :: string where
  "wranglerPath = path_join PROJECT_ROOT ''wrangler.jsonc''"

subsection \<open>Provisioning: dispatch namespace\<close>

text \<open>
  The test of line 172,
  \<open>error?.status !== 404 && error?.message?.indexOf('not found') === -1\<close>.
  When the message is undefined the optional chain yields \<open>undefined\<close>, and
  \<open>undefined === -1\<close> is false.
\<close>

definition rethrown :: "thrown \<Rightarrow> bool" where
  "rethrown error =
    (opt_status error \<noteq> Some 404 \<and>
     (case opt_message error of Some m \<Rightarrow> indexOf m ''not found'' = - 1 | None \<Rightarrow> False))"

definition ensureDispatchNamespace ::
  "cloudflare_api \<Rightarrow> manager \<Rightarrow> world \<Rightarrow> (exn + unit) \<times> world" where
  "ensureDispatchNamespace api this w =
    (case (case dispatch_namespaces (config this) of Some (d # _) \<Rightarrow> Some d | _ \<Rightarrow> None) of
       None \<Rightarrow>
         (Inl (DeploymentError ''No dispatch namespace configuration found in wrangler.jsonc'' None), w)
     | Some dispatchConfig \<Rightarrow>
         (let namespaceName = namespace dispatchConfig;
              failed = (\<lambda>e. Inl (DeploymentError
                         (''Failed to ensure dispatch namespace: '' @ namespaceName) (Some e)));
              w1 = emit (Log (''Checking dispatch namespace: '' @ namespaceName)) w;
              w2 = emit (NamespaceGet namespaceName) w1
          in case namespaces_get api namespaceName of
               Inr _ \<Rightarrow>
                 (Inr (), emit (Log (''Dispatch namespace '' @ namespaceName @ '' already exists'')) w2)
             | Inl error \<Rightarrow>
                 if rethrown error then (failed error, w2)
                 else
                   (let w3 = emit (Log (''Creating dispatch namespace: '' @ namespaceName)) w2;
                        w4 = emit (NamespaceCreate namespaceName) w3
                    in case namespaces_create api namespaceName of
                         Inl e \<Rightarrow> (failed e, w4)
                       | Inr _ \<Rightarrow>
                           (Inr (), emit (Log (''Successfully created dispatch namespace: '' @
                                               namespaceName)) w4))))"

subsection \<open>Provisioning: AI Gateway and its token\<close>

definition checkTokenPermissions :: "cloudflare_api \<Rightarrow> manager \<Rightarrow> world \<Rightarrow> bool \<times> world" where
  "checkTokenPermissions api this w =
    (let w1 = emit (TokenVerify (CLOUDFLARE_API_TOKEN (env this))) w in
     case tokens_verify api (CLOUDFLARE_API_TOKEN (env this)) of
       Inl e \<Rightarrow> (False, emit (Warn (''Token verification failed: '' @ describe e)) w1)
     | Inr (Response ok statusText body) \<Rightarrow>
         if \<not> ok then (False, emit (Warn ''Could not verify API token permissions'') w1)
         else (case body of
                 Inl e \<Rightarrow> (False, emit (Warn (''Token verification failed: '' @ describe e)) w1)
               | Inr verifyData \<Rightarrow>
                   if \<not> success verifyData
                   then (False, emit (Warn ''API token verification failed'') w1)
                   else (False, emit (Log ''Main API token verified, but will create dedicated AI Gateway token'') w1)))"

definition placeholder_token :: string where
  "placeholder_token = ''optional-your-cf-ai-gateway-token''"

text \<open>The \<open>try\<close> block of \<open>ensureAIGatewayToken\<close>: the request for a new token.\<close>

definition issueAIGatewayToken ::
  "cloudflare_api \<Rightarrow> manager \<Rightarrow> world \<Rightarrow> (thrown + string) \<times> manager \<times> world" where
  "issueAIGatewayToken api this w =
    (let w1 = emit (Log ''Creating AI Gateway authentication token...'') w;
         w2 = emit (TokenIssue (CLOUDFLARE_API_TOKEN (env this))) w1
     in case tokens_issue api (CLOUDFLARE_API_TOKEN (env this)) of
          Inl e \<Rightarrow> (Inl e, this, w2)
        | Inr (Response ok statusText body) \<Rightarrow>
            if \<not> ok then
              (let errorMessage =
                     (case body of
                        Inl _ \<Rightarrow> ''Unknown error''
                      | Inr errorData \<Rightarrow>
                          if truthy (first_error errorData)
                          then (case first_error errorData of Some m \<Rightarrow> m | None \<Rightarrow> statusText)
                          else statusText)
               in (Inl (new_Error (''API token creation failed: '' @ errorMessage)), this, w2))
            else (case body of
                    Inl e \<Rightarrow> (Inl e, this, w2)
                  | Inr tokenData \<Rightarrow>
                      (case result_value tokenData of
                         Some newToken \<Rightarrow>
                           if success tokenData \<and> newToken \<noteq> [] then
                             (Inr newToken,
                              this\<lparr>aiGatewayCloudflare := Some newToken\<rparr>,
                              emit (Warn newToken)
                                (emit (Warn ''Please save this token and add it to CLOUDFLARE_AI_GATEWAY_TOKEN:'')
                                  (emit (Log ''Token ID'')
                                    (emit (Log ''AI Gateway authentication token created successfully'') w2))))
                           else (Inl (new_Error ''Token creation succeeded but no token value returned''), this, w2)
                       | None \<Rightarrow>
                           (Inl (new_Error ''Token creation succeeded but no token value returned''), this, w2))))"

text \<open>\<open>currentToken && currentToken !== 'optional-your-cf-ai-gateway-token'\<close>: the
  configured token when the test holds.\<close>

definition usable_token :: "string option \<Rightarrow> string option" where
  "usable_token currentToken =
    (case currentToken of
       Some t \<Rightarrow> if t \<noteq> [] \<and> t \<noteq> placeholder_token then Some t else None
     | None \<Rightarrow> None)"

definition ensureAIGatewayToken ::
  "cloudflare_api \<Rightarrow> manager \<Rightarrow> world \<Rightarrow> (thrown + string option) \<times> manager \<times> world" where
  "ensureAIGatewayToken api this w =
    (case usable_token (CLOUDFLARE_AI_GATEWAY_TOKEN (env this)) of
       Some currentToken \<Rightarrow>
         (Inr (Some currentToken), this\<lparr>aiGatewayCloudflare := Some currentToken\<rparr>,
          emit (Log ''AI Gateway token already configured'') w)
     | None \<Rightarrow>
         (case issueAIGatewayToken api this w of
            (Inr newToken, this', w') \<Rightarrow> (Inr (Some newToken), this', w')
          | (Inl error, this', w') \<Rightarrow>
              (Inr None, this',
               emit (Warn ''AI Gateway will be created without authentication...'')
                 (emit (Warn (''Could not create AI Gateway token: '' @ describe error)) w'))))"

text \<open>\<open>this.aiGatewayCloudflare || this.cloudflare\<close>, as the token of the instance.\<close>

definition getAIGatewaySDK :: "manager \<Rightarrow> string" where
  "getAIGatewaySDK this =
    (case aiGatewayCloudflare this of Some t \<Rightarrow> t | None \<Rightarrow> CLOUDFLARE_API_TOKEN (env this))"

text \<open>The test of line 224,
  \<open>error?.status !== 404 && !error?.message?.includes('not found')\<close>.\<close>

definition not_a_404 :: "thrown \<Rightarrow> bool" where
  "not_a_404 error =
    (opt_status error \<noteq> Some 404 \<and>
     \<not> (case opt_message error of Some m \<Rightarrow> includes_str m ''not found'' | None \<Rightarrow> False))"

text \<open>Steps 2 and 3 of \<open>ensureAIGateway\<close> (lines 212 to 252): look the gateway up with
  the SDK instance of \<open>getAIGatewaySDK\<close> and create it when it is not found.\<close>

definition ensureAIGateway_lookup ::
  "cloudflare_api \<Rightarrow> string \<Rightarrow> string option \<Rightarrow> manager \<Rightarrow> world \<Rightarrow> (thrown + unit) \<times> world" where
  "ensureAIGateway_lookup api gatewayName aiGatewayToken this w =
    (let aiGatewaySDK = getAIGatewaySDK this;
         w4 = emit (GatewayGet aiGatewaySDK gatewayName) w
     in case aiGateway_get api aiGatewaySDK gatewayName of
          Inr _ \<Rightarrow> (Inr (), emit (Log (''AI Gateway '' @ gatewayName @ '' already exists'')) w4)
        | Inl error \<Rightarrow>
            if not_a_404 error then
              (case error of
                 Nullish \<Rightarrow> (Inl TypeError, w4)
               | Thrown s m \<Rightarrow>
                   (Inr (), emit (Warn (''Could not check AI Gateway '' @ gatewayName @ '': '' @
                                        (case m of Some t \<Rightarrow> t | None \<Rightarrow> ''undefined''))) w4))
            else if length gatewayName > 64 then
              (Inr (), emit (Warn (''AI Gateway name too long ('' @ string_of_nat (length gatewayName) @
                                   '' > 64 chars), skipping creation'')) w4)
            else
              (let authentication = (aiGatewayToken \<noteq> None);
                   w5 = emit (Log (''Creating AI Gateway: '' @ gatewayName)) w4;
                   w6 = emit (GatewayCreate aiGatewaySDK gatewayName authentication) w5
               in case aiGateway_create api aiGatewaySDK gatewayName authentication of
                    Inl e \<Rightarrow> (Inl e, w6)
                  | Inr _ \<Rightarrow>
                      (Inr (), emit (Log (''Successfully created AI Gateway: '' @ gatewayName @
                                          '' (authentication: '' @
                                          (if authentication then ''enabled'' else ''disabled'') @ '')'')) w6)))"

text \<open>The \<open>try\<close> block of \<open>ensureAIGateway\<close> (lines 207 to 252): step 1, the token, then
  the lookup.\<close>

definition ensureAIGateway_body ::
  "cloudflare_api \<Rightarrow> string \<Rightarrow> manager \<Rightarrow> world \<Rightarrow> (thrown + unit) \<times> manager \<times> world" where
  "ensureAIGateway_body api gatewayName this w =
    (let w1 = emit (Log ''Checking API token permissions...'') w;
         (tokenCheck, w2) = checkTokenPermissions api this w1
     in case ensureAIGatewayToken api this w2 of
          (Inl e, this3, w3) \<Rightarrow> (Inl e, this3, w3)
        | (Inr aiGatewayToken, this3, w3) \<Rightarrow>
            (case ensureAIGateway_lookup api gatewayName aiGatewayToken this3 w3 of
               (r, w') \<Rightarrow> (r, this3, w')))"

definition ensureAIGateway ::
  "cloudflare_api \<Rightarrow> manager \<Rightarrow> world \<Rightarrow> (exn + unit) \<times> manager \<times> world" where
  "ensureAIGateway api this w =
    (case CLOUDFLARE_AI_GATEWAY (env this) of
       None \<Rightarrow>
         (Inr (), this, emit (Log ''AI Gateway setup skipped (CLOUDFLARE_AI_GATEWAY not provided)'') w)
     | Some gatewayName \<Rightarrow>
         if gatewayName = [] then
           (Inr (), this, emit (Log ''AI Gateway setup skipped (CLOUDFLARE_AI_GATEWAY not provided)'') w)
         else
           (case ensureAIGateway_body api gatewayName this
                   (emit (Log (''Checking AI Gateway: '' @ gatewayName)) w) of
              (Inr _, this', w') \<Rightarrow> (Inr (), this', w')
            | (Inl error, this', w') \<Rightarrow>
                (Inr (), this',
                 emit (Warn ''Continuing deployment without AI Gateway setup...'')
                   (emit (Warn (''Could not create AI Gateway '' @ gatewayName @ '': '' @
                                describe error)) w'))))"

subsection \<open>Sequencing\<close>

text \<open>A statement that may throw, followed by the rest of the block.\<close>

definition bind_w ::
  "('e + 'a) \<times> world \<Rightarrow> ('a \<Rightarrow> world \<Rightarrow> ('e + 'b) \<times> world) \<Rightarrow> ('e + 'b) \<times> world" where
  "bind_w r f = (case r of (Inl e, w) \<Rightarrow> (Inl e, w) | (Inr a, w) \<Rightarrow> f a w)"

definition dq :: string where
  "dq = [CHR 0x22]"

subsection \<open>Templates\<close>

text \<open>The \<open>try\<close> block of \<open>deployTemplates\<close> (lines 396 to 458).\<close>

definition deployTemplates_body :: "host \<Rightarrow> manager \<Rightarrow> world \<Rightarrow> (thrown + unit) \<times> world" where
  "deployTemplates_body h this w =
    (let templatesDir = path_join PROJECT_ROOT ''templates'';
         templatesRepo = TEMPLATES_REPOSITORY (env this);
         (dirExists, w1) = existsSync templatesDir w
     in bind_w (if \<not> dirExists then mkdirSync h templatesDir w1 else (Inr (), w1)) (\<lambda>_ w2.
        let (gitExists, w3) = existsSync (path_join templatesDir ''.git'') w2
        in bind_w
             (if \<not> gitExists then
                bind_w (execSync h PROJECT_ROOT
                          (''git clone '' @ dq @ templatesRepo @ dq @ '' '' @ dq @ templatesDir @ dq)
                          (emit (Log ''Cloning templates repository...'') w3))
                  (\<lambda>_ w'. (Inr (), emit (Log ''Templates repository cloned successfully'') w'))
              else
                (case execSync h templatesDir ''git pull origin main || git pull origin master''
                        (emit (Log ''Templates repository already exists, pulling latest changes...'') w3) of
                   (Inr _, w') \<Rightarrow> (Inr (), emit (Log ''Templates repository updated'') w')
                 | (Inl pullError, w') \<Rightarrow>
                     (Inr (), emit (Warn ''Could not pull latest changes, continuing with existing templates'') w')))
             (\<lambda>_ w4.
                case find (\<lambda>bucket. binding bucket = ''TEMPLATES_BUCKET'')
                       (case r2_buckets (config this) of Some bs \<Rightarrow> bs | None \<Rightarrow> []) of
                  None \<Rightarrow>
                    (Inl (new_Error ''TEMPLATES_BUCKET not found in wrangler.jsonc r2_buckets configuration''), w4)
                | Some templatesBucket \<Rightarrow>
                    (let deployScript = path_join templatesDir ''deploy_templates.sh'';
                         (scriptExists, w5) = existsSync deployScript w4
                     in if \<not> scriptExists then
                          (Inr (), emit (Warn ''deploy_templates.sh not found in templates repository, skipping template deployment'') w5)
                        else
                          bind_w (execSync h templatesDir (''chmod +x '' @ dq @ deployScript @ dq) w5) (\<lambda>_ w6.
                          bind_w (execSync h templatesDir ''./deploy_templates.sh''
                                    (emit (Log (''Deploying templates to R2 bucket: '' @
                                                bucket_name templatesBucket)) w6)) (\<lambda>_ w7.
                            (Inr (), emit (Log ''Templates deployed successfully to R2'') w7)))))))"

definition deployTemplates :: "host \<Rightarrow> manager \<Rightarrow> world \<Rightarrow> (exn + unit) \<times> world" where
  "deployTemplates h this w =
    (case deployTemplates_body h this
            (emit (Log (''Setting up templates from: '' @ TEMPLATES_REPOSITORY (env this))) w) of
       (Inr _, w') \<Rightarrow> (Inr (), w')
     | (Inl error, w') \<Rightarrow>
         (Inr (), emit (Warn (describe error))
                    (emit (Warn ''Templates deployment failed, but continuing with main deployment:'') w')))"

subsection \<open>Container configuration\<close>

text \<open>
  A JSON value, over what is kept of a number. In a parsed value (\<open>json\<close>) a number is
  kept as the literal the document writes (the script prints it and never computes with
  it); an object is the list of its properties, looked up with \<open>map_of\<close>. \<open>None\<close> of
  \<open>json option\<close> is \<open>undefined\<close>.
\<close>

datatype 'n jvalue =
    JNull
  | JBool bool
  | JNumber 'n
  | JString string
  | JArray "'n jvalue list"
  | JObject "(string \<times> 'n jvalue) list"

type_synonym json = "string jvalue"

datatype segment = Key string | Index nat

text \<open>An edit of \<open>jsonc-parser\<close>: offset, length and the replacing text.\<close>

datatype edit = Edit nat nat string

text \<open>
  The three functions the script imports from \<open>jsonc-parser\<close>, which is not part of the
  repository. \<open>modify\<close> is only ever called with a number as the value and with no
  formatting options.
\<close>

record jsonc =
  parse :: "string \<Rightarrow> thrown + json option"
  modify :: "string \<Rightarrow> segment list \<Rightarrow> nat \<Rightarrow> thrown + edit list"
  applyEdits :: "string \<Rightarrow> edit list \<Rightarrow> thrown + string"

text \<open>
  \<open>containers.findIndex(container => container.class_name === 'UserAppSandboxService')\<close>.
  Reading a property of \<open>null\<close> throws; of a string, number, boolean or array it yields
  \<open>undefined\<close>. \<open>None\<close> is the result \<open>-1\<close>.
\<close>

fun findIndex_from :: "nat \<Rightarrow> 'n jvalue list \<Rightarrow> thrown + nat option" where
  "findIndex_from i [] = Inr None"
| "findIndex_from i (JNull # cs) = Inl TypeError"
| "findIndex_from i (JObject kvs # cs) =
     (if map_of kvs ''class_name'' = Some (JString ''UserAppSandboxService'') then Inr (Some i)
      else findIndex_from (Suc i) cs)"
| "findIndex_from i (c # cs) = findIndex_from (Suc i) cs"

text \<open>The \<open>try\<close> block of \<open>updateContainerConfiguration\<close> (lines 486 to 529). The script
  hands \<open>modify\<close> the number it holds, which is a function of the integer the model hands
  over. The last message of the script also shows the old value of the field, which the
  model leaves out.\<close>

definition updateContainerConfiguration_body ::
  "jsonc \<Rightarrow> host \<Rightarrow> nat \<Rightarrow> world \<Rightarrow> (thrown + unit) \<times> world" where
  "updateContainerConfiguration_body lib h maxInstancesNum w =
    bind_w (readFileSync h wranglerPath w) (\<lambda>content w1.
      case parse lib content of
        Inl e \<Rightarrow> (Inl e, w1)
      | Inr None \<Rightarrow> (Inl TypeError, w1)
      | Inr (Some JNull) \<Rightarrow> (Inl TypeError, w1)
      | Inr (Some (JObject kvs)) \<Rightarrow>
          (case map_of kvs ''containers'' of
             Some (JArray containers) \<Rightarrow>
               (case findIndex_from 0 containers of
                  Inl e \<Rightarrow> (Inl e, w1)
                | Inr None \<Rightarrow>
                    (Inr (), emit (Warn ''UserAppSandboxService container not found in wrangler.jsonc'') w1)
                | Inr (Some sandboxContainerIndex) \<Rightarrow>
                    (case modify lib content
                            [Key ''containers'', Index sandboxContainerIndex, Key ''max_instances'']
                            maxInstancesNum of
                       Inl e \<Rightarrow> (Inl e, w1)
                     | Inr edits \<Rightarrow>
                         (case applyEdits lib content edits of
                            Inl e \<Rightarrow> (Inl e, w1)
                          | Inr updatedContent \<Rightarrow>
                              bind_w (writeFileSync h wranglerPath updatedContent w1) (\<lambda>_ w2.
                                (Inr (), emit (Log (''Updated UserAppSandboxService max_instances to '' @
                                                    number_text h maxInstancesNum)) w2)))))
           | _ \<Rightarrow> (Inr (), emit (Warn ''No containers configuration found in wrangler.jsonc'') w1))
      | Inr (Some _) \<Rightarrow>
          (Inr (), emit (Warn ''No containers configuration found in wrangler.jsonc'') w1))"

definition updateContainerConfiguration ::
  "jsonc \<Rightarrow> host \<Rightarrow> manager \<Rightarrow> world \<Rightarrow> (exn + unit) \<times> world" where
  "updateContainerConfiguration lib h this w =
    (case MAX_SANDBOX_INSTANCES (env this) of
       None \<Rightarrow>
         (Inr (), emit (Log ''MAX_SANDBOX_INSTANCES not set, skipping container configuration update'') w)
     | Some maxInstances \<Rightarrow>
         if maxInstances = [] then
           (Inr (), emit (Log ''MAX_SANDBOX_INSTANCES not set, skipping container configuration update'') w)
         else
           (case parseInt maxInstances of
              None \<Rightarrow>
                (Inr (), emit (Warn (''Invalid MAX_SANDBOX_INSTANCES value: '' @ maxInstances @
                                     '', skipping update'')) w)
            | Some maxInstancesNum \<Rightarrow>
                if maxInstancesNum \<le> 0 then
                  (Inr (), emit (Warn (''Invalid MAX_SANDBOX_INSTANCES value: '' @ maxInstances @
                                       '', skipping update'')) w)
                else
                  (case updateContainerConfiguration_body lib h (nat maxInstancesNum)
                          (emit (Log (''Updating container configuration: MAX_SANDBOX_INSTANCES='' @
                                      number_text h (nat maxInstancesNum))) w) of
                     (Inr _, w') \<Rightarrow> (Inr (), w')
                   | (Inl error, w') \<Rightarrow>
                       (Inl (DeploymentError ''Failed to update container configuration'' (Some error)), w'))))"

subsection \<open>Build, deploy, secrets\<close>

definition build_command :: string where
  "build_command = ''rm -rf dist && bun run build''"

definition buildProject :: "host \<Rightarrow> world \<Rightarrow> (exn + unit) \<times> world" where
  "buildProject h w =
    (case execSync h PROJECT_ROOT build_command (emit (Log ''Building project...'') w) of
       (Inr _, w') \<Rightarrow> (Inr (), emit (Log ''Project build completed'') w')
     | (Inl error, w') \<Rightarrow> (Inl (DeploymentError ''Failed to build project'' (Some error)), w'))"

definition deploy_command :: string where
  "deploy_command = ''wrangler deploy''"

definition wranglerDeploy :: "host \<Rightarrow> world \<Rightarrow> (exn + unit) \<times> world" where
  "wranglerDeploy h w =
    (case execSync h PROJECT_ROOT deploy_command (emit (Log ''Deploying to Cloudflare Workers...'') w) of
       (Inr _, w') \<Rightarrow> (Inr (), emit (Log ''Wrangler deployment completed'') w')
     | (Inl error, w') \<Rightarrow> (Inl (DeploymentError ''Failed to deploy with Wrangler'' (Some error)), w'))"

definition prodVarsPath :: string where
  "prodVarsPath = path_join PROJECT_ROOT ''.prod.vars''"

definition secretVars :: "string list" where
  "secretVars =
    [''CLOUDFLARE_API_TOKEN'', ''CLOUDFLARE_ACCOUNT_ID'', ''TEMPLATES_REPOSITORY'',
     ''CLOUDFLARE_AI_GATEWAY'', ''CLOUDFLARE_AI_GATEWAY_URL'', ''CLOUDFLARE_AI_GATEWAY_TOKEN'',
     ''ANTHROPIC_API_KEY'', ''OPENAI_API_KEY'', ''GEMINI_API_KEY'', ''OPENROUTER_API_KEY'',
     ''GROQ_API_KEY'', ''GOOGLE_CLIENT_SECRET'', ''GOOGLE_CLIENT_ID'', ''GITHUB_CLIENT_ID'',
     ''GITHUB_CLIENT_SECRET'', ''JWT_SECRET'', ''WEBHOOK_SECRET'', ''MAX_SANDBOX_INSTANCES'']"

definition prodVarsLine :: "process_env \<Rightarrow> string \<Rightarrow> string" where
  "prodVarsLine penv varName =
    (case penv varName of
       None \<Rightarrow> ''# '' @ varName @ ''='' @ dq @ dq @ '' # Not set in current environment''
     | Some v \<Rightarrow>
         if v = [] then ''# '' @ varName @ ''='' @ dq @ dq @ '' # Not set in current environment''
         else if startsWith v ''optional-'' \<or> startsWith v ''your-''
         then ''# '' @ varName @ ''='' @ dq @ v @ dq @ '' # Placeholder - update with actual value''
         else varName @ ''='' @ dq @ v @ dq)"

definition prodVarsContent :: "process_env \<Rightarrow> string list" where
  "prodVarsContent penv =
    [''# Production environment variables for Cloudflare Orange Build'',
     ''# Generated automatically during deployment'',
     [],
     ''# Essential Secrets:''] @
    map (prodVarsLine penv) secretVars @
    [[], ''ENVIRONMENT='' @ dq @ ''production'' @ dq]"

definition createProdVarsFile :: "host \<Rightarrow> process_env \<Rightarrow> world \<Rightarrow> (exn + unit) \<times> world" where
  "createProdVarsFile h penv w =
    (case writeFileSync h prodVarsPath (join ''\<newline>'' (prodVarsContent penv) @ ''\<newline>'')
            (emit (Log ''Creating .prod.vars file from environment variables...'') w) of
       (Inr _, w') \<Rightarrow> (Inr (), emit (Log ''Created .prod.vars file with 18 environment variables'') w')
     | (Inl error, w') \<Rightarrow>
         (Inl (DeploymentError ''Failed to create .prod.vars file'' (Some error)),
          emit (Warn (''Could not create .prod.vars file: '' @ describe error)) w'))"

text \<open>The \<open>try\<close> block of \<open>updateSecrets\<close> (lines 656 to 675).\<close>

definition secrets_command :: string where
  "secrets_command = ''wrangler secret bulk .prod.vars''"

definition updateSecrets_body :: "host \<Rightarrow> process_env \<Rightarrow> world \<Rightarrow> (exn + unit) \<times> world" where
  "updateSecrets_body h penv w =
    (let (found, w1) = existsSync prodVarsPath w
     in bind_w
          (if \<not> found
           then createProdVarsFile h penv
                  (emit (Log ''.prod.vars file not found, creating from environment variables...'') w1)
           else (Inr (), w1))
          (\<lambda>_ w2.
             let (created, w3) = existsSync prodVarsPath w2
             in if \<not> created then
                  (Inr (), emit (Warn ''Could not create .prod.vars file, skipping secret update'') w3)
                else
                  (case execSync h PROJECT_ROOT secrets_command w3 of
                     (Inr _, w4) \<Rightarrow> (Inr (), emit (Log ''Production secrets updated successfully'') w4)
                   | (Inl error, w4) \<Rightarrow> (Inl (Raised error), w4))))"

definition updateSecrets :: "host \<Rightarrow> process_env \<Rightarrow> world \<Rightarrow> (exn + unit) \<times> world" where
  "updateSecrets h penv w =
    (case updateSecrets_body h penv (emit (Log ''Updating production secrets...'') w) of
       (Inr _, w') \<Rightarrow> (Inr (), w')
     | (Inl error, w') \<Rightarrow>
         (Inr (), emit (Warn ''You may need to update secrets manually if required'')
                    (emit (Warn (''Could not update secrets: '' @ exn_message error)) w')))"

subsection \<open>The run\<close>

text \<open>The \<open>try\<close> block of \<open>deploy\<close> as it stands (lines 720 to 735): the block that ran
  \<open>ensureDispatchNamespace\<close>, \<open>deployTemplates\<close>, \<open>buildProject\<close> and \<open>ensureAIGateway\<close>
  (lines 692 to 718) is commented out in the source.\<close>

definition deploy_steps ::
  "jsonc \<Rightarrow> host \<Rightarrow> manager \<Rightarrow> process_env \<Rightarrow> world \<Rightarrow> (exn + unit) \<times> world" where
  "deploy_steps lib h this penv w =
    bind_w (updateContainerConfiguration lib h this
              (emit (Log ''Step 6: Updating container configuration...'') w)) (\<lambda>_ w1.
    bind_w (wranglerDeploy h (emit (Log ''Step 7: Deploying to Cloudflare Workers...'') w1)) (\<lambda>_ w2.
    bind_w (updateSecrets h penv (emit (Log ''Step 8: Updating production secrets...'') w2)) (\<lambda>_ w3.
      (Inr (), emit (Log ''Your Cloudflare Orange Build platform is now live!'')
                 (emit (Log ''Complete deployment finished successfully'') w3)))))"

definition report_failure :: "exn \<Rightarrow> world \<Rightarrow> world" where
  "report_failure error w =
    (let w1 = emit (ErrorLog ''Deployment failed:'') w;
         w2 = (case error of
                 DeploymentError m cause \<Rightarrow>
                   (case cause of
                      Some c \<Rightarrow> emit (ErrorLog (''Caused by: '' @ describe c)) (emit (ErrorLog m) w1)
                    | None \<Rightarrow> emit (ErrorLog m) w1)
               | Raised e \<Rightarrow> emit (ErrorLog (describe e)) w1)
     in emit (ErrorLog ''Troubleshooting tips'') w2)"

text \<open>\<open>deploy\<close>: the exit status of the process and the world it leaves. A failure ends in
  \<open>process.exit(1)\<close>; otherwise the promise resolves and the process ends with status 0.\<close>

definition deploy ::
  "jsonc \<Rightarrow> host \<Rightarrow> manager \<Rightarrow> process_env \<Rightarrow> world \<Rightarrow> nat \<times> world" where
  "deploy lib h this penv w =
    (case deploy_steps lib h this penv
            (emit (Log ''Cloudflare Orange Build - Automated Deployment Starting...'') w) of
       (Inr _, w') \<Rightarrow> (0, w')
     | (Inl error, w') \<Rightarrow> (1, emit (Exit 1) (report_failure error w')))"

subsection \<open>The constructor\<close>

definition parseWranglerConfig :: "jsonc \<Rightarrow> host \<Rightarrow> world \<Rightarrow> (exn + json) \<times> world" where
  "parseWranglerConfig lib h w =
    (let (found, w1) = existsSync wranglerPath w
     in if \<not> found then (Inl (DeploymentError ''wrangler.jsonc file not found in project root'' None), w1)
        else
          (case readFileSync h wranglerPath w1 of
             (Inl e, w2) \<Rightarrow> (Inl (DeploymentError ''Failed to parse wrangler.jsonc file'' (Some e)), w2)
           | (Inr content, w2) \<Rightarrow>
               (case parse lib content of
                  Inl e \<Rightarrow> (Inl (DeploymentError ''Failed to parse wrangler.jsonc file'' (Some e)), w2)
                | Inr None \<Rightarrow>
                    (Inl (DeploymentError ''Failed to parse wrangler.jsonc file'' (Some TypeError)), w2)
                | Inr (Some JNull) \<Rightarrow>
                    (Inl (DeploymentError ''Failed to parse wrangler.jsonc file'' (Some TypeError)), w2)
                | Inr (Some cfg) \<Rightarrow> (Inr cfg, emit (Log ''Parsed wrangler.jsonc'') w2))))"

text \<open>The constructor up to the point where the SDK instance is made: the parsed
  configuration and \<open>this.env\<close>.\<close>

definition new_CloudflareDeploymentManager ::
  "jsonc \<Rightarrow> host \<Rightarrow> process_env \<Rightarrow> world \<Rightarrow> (exn + json \<times> environment_config) \<times> world" where
  "new_CloudflareDeploymentManager lib h penv w =
    bind_w (validateEnvironment penv w) (\<lambda>_ w1.
    bind_w (parseWranglerConfig lib h w1) (\<lambda>cfg w2.
      (Inr (cfg, getEnvironmentVariables penv), w2)))"

section \<open>The package \<open>jsonc-parser\<close>\<close>

text \<open>
  Modelled from the spec: the functions \<open>parse\<close>, \<open>modify\<close> and \<open>applyEdits\<close> of the package
  \<open>jsonc-parser\<close>, which the script imports and which are not among the sources. The spec
  asks of the patcher that it locates the byte range of the value of the addressed field in
  the raw text, replaces it and returns the new full text, and that the document is a
  structured text with comments. The model reads documents of JSON with comments: white
  space, \<open>//\<close> and \<open>/* */\<close> comments, the literals, numbers (kept as written), strings without
  escapes, arrays and objects with distinct keys, a trailing comma allowed. For any other
  text, and for a path that does not lead to a number, the model answers with the error
  \<open>outside_model\<close>; nothing is proved about those.
\<close>

subsection \<open>Tokens\<close>

definition is_trivia_char :: "char \<Rightarrow> bool" where
  "is_trivia_char c = (c \<in> set [CHR '' '', CHR 0x09, CHR 0x0A, CHR 0x0D])"

definition is_delimiter :: "char \<Rightarrow> bool" where
  "is_delimiter c = (is_trivia_char c \<or> c \<in> set (''{}[]:,/'' @ [CHR 0x22]))"



datatype 'n token =
    LBrace | RBrace | LBracket | RBracket | Comma | Colon
  | NullLit | TrueLit | FalseLit
  | StringLit string
  | NumberLit 'n







fun token_text :: "string token \<Rightarrow> string" where
  "token_text LBrace = ''{''"
| "token_text RBrace = ''}''"
| "token_text LBracket = ''[''"
| "token_text RBracket = '']''"
| "token_text Comma = '',''"
| "token_text Colon = '':''"
| "token_text NullLit = ''null''"
| "token_text TrueLit = ''true''"
| "token_text FalseLit = ''false''"
| "token_text (StringLit b) = CHR 0x22 # b @ [CHR 0x22]"
| "token_text (NumberLit w) = w"







subsection \<open>Values\<close>




subsection \<open>The three functions\<close>











section \<open>Vocabulary of the properties\<close>

text \<open>The required names that are missing from the environment.\<close>

definition missing_of :: "process_env \<Rightarrow> string list" where
  "missing_of penv = filter (\<lambda>varName. \<not> truthy (penv varName)) requiredVars"

text \<open>The events a step adds to the trace, and the kinds of event the properties speak of.\<close>

definition since :: "world \<Rightarrow> world \<Rightarrow> event list" where
  "since w w' = drop (length (trace w)) (trace w')"

fun is_create :: "event \<Rightarrow> bool" where
  "is_create (NamespaceCreate n) = True"
| "is_create (GatewayCreate t g a) = True"
| "is_create e = False"

fun is_issue :: "event \<Rightarrow> bool" where
  "is_issue (TokenIssue t) = True"
| "is_issue e = False"

fun is_warn :: "event \<Rightarrow> bool" where
  "is_warn (Warn m) = True"
| "is_warn e = False"

fun is_console :: "event \<Rightarrow> bool" where
  "is_console (Log m) = True"
| "is_console (Warn m) = True"
| "is_console (ErrorLog m) = True"
| "is_console e = False"

fun is_verify :: "event \<Rightarrow> bool" where
  "is_verify (TokenVerify t) = True"
| "is_verify e = False"

definition creations :: "event list \<Rightarrow> nat" where
  "creations evs = length (filter is_create evs)"

definition token_event :: "event \<Rightarrow> bool" where
  "token_event e = (is_console e \<or> is_issue e \<or> is_verify e)"

text \<open>The token the gateway step ends up with: the configured one when it is usable,
  otherwise the one the control plane issues, if it does.\<close>

definition token_result :: "cloudflare_api \<Rightarrow> manager \<Rightarrow> world \<Rightarrow> string option" where
  "token_result api this w =
    (case usable_token (CLOUDFLARE_AI_GATEWAY_TOKEN (env this)) of
       Some t \<Rightarrow> Some t
     | None \<Rightarrow> (case fst (issueAIGatewayToken api this w) of Inr t \<Rightarrow> Some t | Inl e \<Rightarrow> None))"

text \<open>The events of the gateway step from the lookup on, by the outcome of the lookup
  (before and after the \<open>catch\<close> of \<open>ensureAIGateway\<close>).\<close>

definition lookup_tail ::
  "cloudflare_api \<Rightarrow> string \<Rightarrow> string option \<Rightarrow> string \<Rightarrow> (thrown + unit) \<Rightarrow> event list \<Rightarrow> bool" where
  "lookup_tail api g tok sdk r tail =
    (case aiGateway_get api sdk g of
          Inr _ \<Rightarrow> r = Inr () \<and> tail = [Log (''AI Gateway '' @ g @ '' already exists'')]
        | Inl e \<Rightarrow>
            if not_a_404 e then
              (r = Inl TypeError \<and> tail = []) \<or> (r = Inr () \<and> (\<exists>m. tail = [Warn m]))
            else if length g > 64 then
              r = Inr () \<and>
              tail = [Warn (''AI Gateway name too long ('' @ string_of_nat (length g) @
                            '' > 64 chars), skipping creation'')]
            else (\<exists>rest. tail = Log (''Creating AI Gateway: '' @ g)
                           # GatewayCreate sdk g (tok \<noteq> None)
                           # rest \<and> list_all is_console rest
                           \<and> (rest = [] \<or> r = Inr ())))"

definition gateway_tail ::
  "cloudflare_api \<Rightarrow> string \<Rightarrow> string option \<Rightarrow> string \<Rightarrow> event list \<Rightarrow> bool" where
  "gateway_tail api g tok sdk tail =
    (case aiGateway_get api sdk g of
          Inr _ \<Rightarrow> tail = [Log (''AI Gateway '' @ g @ '' already exists'')]
        | Inl e \<Rightarrow>
            if not_a_404 e then tail \<noteq> [] \<and> list_all is_warn tail
            else if length g > 64 then
              tail = [Warn (''AI Gateway name too long ('' @ string_of_nat (length g) @
                            '' > 64 chars), skipping creation'')]
            else (\<exists>rest. tail = Log (''Creating AI Gateway: '' @ g)
                           # GatewayCreate sdk g (tok \<noteq> None)
                           # rest \<and> list_all is_console rest))"

section \<open>Concrete runs\<close>

text \<open>A machine on which every file-system call and every child process succeeds, and an
  empty world. No run below holds a number of \<open>2^53\<close> or more, so the text of such a number
  is never asked for.\<close>

definition host_ok :: host where
  "host_ok = \<lparr> unreadable = (\<lambda>p. False), unwritable = (\<lambda>p. False),
               io_error = (\<lambda>p. Thrown None (Some ''ENOENT'')),
               exec = (\<lambda>cwd cmd fs. Inr fs),
               large_number_text = (\<lambda>n. ''Infinity'') \<rparr>"

definition empty_world :: world where
  "empty_world = \<lparr> files = Map.empty, trace = [] \<rparr>"

text \<open>An environment with the API token only (and an empty repository name).\<close>

definition env_token_only :: process_env where
  "env_token_only = [''CLOUDFLARE_API_TOKEN'' \<mapsto> ''secret'', ''TEMPLATES_REPOSITORY'' \<mapsto> []]"

text \<open>A control plane on which nothing exists yet: every lookup answers 404, every creation
  succeeds, the token is verified, and no new token is issued.\<close>

definition api_absent :: cloudflare_api where
  "api_absent =
    \<lparr> namespaces_get = (\<lambda>n. Inl (Thrown (Some 404) (Some ''Not Found''))),
      namespaces_create = (\<lambda>n. Inr ()),
      aiGateway_get = (\<lambda>t g. Inl (Thrown (Some 404) (Some ''Not Found''))),
      aiGateway_create = (\<lambda>t g a. Inr ()),
      tokens_verify = (\<lambda>t. Inr (Response True ''OK''
                         (Inr \<lparr> success = True, result_value = None, first_error = None \<rparr>))),
      tokens_issue = (\<lambda>t. Inr (Response False ''Forbidden''
                         (Inr \<lparr> success = False, result_value = None,
                                first_error = Some ''Unauthorized'' \<rparr>))) \<rparr>"

definition config0 :: wrangler_config where
  "config0 =
    \<lparr> name = ''orange-build'',
      dispatch_namespaces =
        Some [\<lparr> ns_binding = ''DISPATCHER'', namespace = ''orange-build-default-namespace'' \<rparr>],
      r2_buckets =
        Some [\<lparr> binding = ''TEMPLATES_BUCKET'', bucket_name = ''orange-build-templates'' \<rparr>] \<rparr>"

definition env0 :: environment_config where
  "env0 =
    \<lparr> CLOUDFLARE_API_TOKEN = ''secret'', CLOUDFLARE_ACCOUNT_ID = ''account'',
      TEMPLATES_REPOSITORY = ''https://example.org/templates.git'',
      CLOUDFLARE_AI_GATEWAY = None, CLOUDFLARE_AI_GATEWAY_URL = None,
      CLOUDFLARE_AI_GATEWAY_TOKEN = None, MAX_SANDBOX_INSTANCES = None \<rparr>"

definition manager0 :: manager where
  "manager0 = \<lparr> config = config0, env = env0, aiGatewayCloudflare = None \<rparr>"

text \<open>A gateway name of 80 characters.\<close>

definition long_gateway_name :: string where
  "long_gateway_name = replicate 80 CHR ''g''"

definition manager_long_gateway :: manager where
  "manager_long_gateway =
     manager0\<lparr> env := env0\<lparr> CLOUDFLARE_AI_GATEWAY := Some long_gateway_name \<rparr> \<rparr>"

text \<open>The same control plane, except that the lookup of a namespace fails with status 500
  and no message.\<close>

definition api_500_without_message :: cloudflare_api where
  "api_500_without_message = api_absent\<lparr> namespaces_get := (\<lambda>n. Inl (Thrown (Some 500) None)) \<rparr>"


text \<open>A control plane on which every lookup succeeds.\<close>

definition api_present :: cloudflare_api where
  "api_present = api_absent\<lparr> namespaces_get := (\<lambda>n. Inr ()), aiGateway_get := (\<lambda>t g. Inr ()) \<rparr>"

text \<open>An instance with a gateway name and a gateway token, and one with the name only.\<close>

definition manager_gateway_token :: manager where
  "manager_gateway_token =
     manager0\<lparr> env := env0\<lparr> CLOUDFLARE_AI_GATEWAY := Some ''acme-gw'',
                              CLOUDFLARE_AI_GATEWAY_TOKEN := Some ''gateway-token'' \<rparr> \<rparr>"

text \<open>An instance with a gateway name of 80 characters and a gateway token.\<close>

definition manager_long_gateway_token :: manager where
  "manager_long_gateway_token =
     manager0\<lparr> env := env0\<lparr> CLOUDFLARE_AI_GATEWAY := Some long_gateway_name,
                              CLOUDFLARE_AI_GATEWAY_TOKEN := Some ''gateway-token'' \<rparr> \<rparr>"

definition manager_gateway :: manager where
  "manager_gateway = manager0\<lparr> env := env0\<lparr> CLOUDFLARE_AI_GATEWAY := Some ''acme-gw'' \<rparr> \<rparr>"

fun is_file_access :: "event \<Rightarrow> bool" where
  "is_file_access (ExistsSync p) = True"
| "is_file_access (ReadFile p) = True"
| "is_file_access (WriteFile p c) = True"
| "is_file_access (Mkdir p) = True"
| "is_file_access e = False"

text \<open>The override is unset (or empty), not a number, or not positive.\<close>

definition invalid_override :: "string option \<Rightarrow> bool" where
  "invalid_override v =
    (case v of
       None \<Rightarrow> True
     | Some s \<Rightarrow> s = [] \<or> (case parseInt s of None \<Rightarrow> True | Some n \<Rightarrow> n \<le> 0))"

definition manager_override :: "string \<Rightarrow> manager" where
  "manager_override v = manager0\<lparr> env := env0\<lparr> MAX_SANDBOX_INSTANCES := Some v \<rparr> \<rparr>"

definition world_at_step6 :: "world \<Rightarrow> world" where
  "world_at_step6 w =
     emit (Log ''Step 6: Updating container configuration...'')
       (emit (Log ''Cloudflare Orange Build - Automated Deployment Starting...'') w)"

definition world_at_step7 :: "jsonc \<Rightarrow> host \<Rightarrow> manager \<Rightarrow> world \<Rightarrow> world" where
  "world_at_step7 lib h this w =
     emit (Log ''Step 7: Deploying to Cloudflare Workers...'')
       (snd (updateContainerConfiguration lib h this (world_at_step6 w)))"

definition world_at_step8 :: "jsonc \<Rightarrow> host \<Rightarrow> manager \<Rightarrow> world \<Rightarrow> world" where
  "world_at_step8 lib h this w =
     emit (Log ''Step 8: Updating production secrets...'')
       (snd (wranglerDeploy h (world_at_step7 lib h this w)))"

fun is_build :: "event \<Rightarrow> bool" where
  "is_build (Exec c ok) = (c = build_command)"
| "is_build e = False"

text \<open>The events of secret synchronization: its first message, its look at the secrets
  file, the generation of that file and the upload.\<close>

fun is_secret_sync :: "event \<Rightarrow> bool" where
  "is_secret_sync (Log m) = (m = ''Updating production secrets...'')"
| "is_secret_sync (ExistsSync p) = (p = prodVarsPath)"
| "is_secret_sync (WriteFile p c) = (p = prodVarsPath)"
| "is_secret_sync (Exec c ok) = (c = secrets_command)"
| "is_secret_sync e = False"

text \<open>Every event of the kind \<open>P\<close> comes after the event \<open>g\<close>.\<close>

fun guarded :: "(event \<Rightarrow> bool) \<Rightarrow> event \<Rightarrow> event list \<Rightarrow> bool" where
  "guarded P g [] = True"
| "guarded P g (e # es) = (e = g \<or> (\<not> P e \<and> guarded P g es))"

text \<open>The events of the configuration step: messages, and reads and writes of
  \<open>wrangler.jsonc\<close>.\<close>

fun cfg_event :: "event \<Rightarrow> bool" where
  "cfg_event (Log m) = (m \<noteq> ''Updating production secrets...'')"
| "cfg_event (Warn m) = True"
| "cfg_event (ReadFile p) = (p = wranglerPath)"
| "cfg_event (WriteFile p c) = (p = wranglerPath)"
| "cfg_event e = False"

fun secrets_event :: "event \<Rightarrow> bool" where
  "secrets_event (Log m) = True"
| "secrets_event (Warn m) = True"
| "secrets_event (ExistsSync p) = True"
| "secrets_event (WriteFile p c) = True"
| "secrets_event (Exec c ok) = (c = secrets_command)"
| "secrets_event e = False"

fun is_error_report :: "event \<Rightarrow> bool" where
  "is_error_report (ErrorLog m) = True"
| "is_error_report (Exit n) = True"
| "is_error_report e = False"

definition jsonc_failing :: jsonc where
  "jsonc_failing = \<lparr> parse = (\<lambda>c. Inl TypeError), modify = (\<lambda>c p n. Inl TypeError),
                     applyEdits = (\<lambda>c es. Inl TypeError) \<rparr>"

definition world_with_secrets :: world where
  "world_with_secrets = \<lparr> files = [prodVarsPath \<mapsto> File ''# secrets''], trace = [] \<rparr>"

fun is_sandbox :: "json \<Rightarrow> bool" where
  "is_sandbox (JObject kvs) = (map_of kvs ''class_name'' = Some (JString ''UserAppSandboxService''))"
| "is_sandbox v = False"

text \<open>The path \<open>containers[class_name = UserAppSandboxService]\<close> does not resolve in what
  \<open>parse\<close> returns (\<open>None\<close> is \<open>undefined\<close>): there is no array \<open>containers\<close>, or none of
  its entries has that class name.\<close>

definition no_target :: "json option \<Rightarrow> bool" where
  "no_target cfg =
    (case cfg of
       Some (JObject kvs) \<Rightarrow>
         (case map_of kvs ''containers'' of
            Some (JArray cs) \<Rightarrow> (\<forall>c \<in> set cs. \<not> is_sandbox c)
          | _ \<Rightarrow> True)
     | _ \<Rightarrow> True)"

text \<open>Looking for the path reads a property of \<open>null\<close> or \<open>undefined\<close>: the document is
  empty or \<open>null\<close>, or the array \<open>containers\<close> has an entry \<open>null\<close>.\<close>

definition null_entry :: "json option \<Rightarrow> bool" where
  "null_entry cfg =
    (case cfg of
       None \<Rightarrow> True
     | Some JNull \<Rightarrow> True
     | Some (JObject kvs) \<Rightarrow>
         (case map_of kvs ''containers'' of
            Some (JArray cs) \<Rightarrow> JNull \<in> set cs
          | _ \<Rightarrow> False)
     | _ \<Rightarrow> False)"

text \<open>Two documents with an array \<open>containers\<close> and no entry of the class: one with an
  entry of another class, one with the entry \<open>null\<close>.\<close>

definition other_container :: "(string \<times> json) list" where
  "other_container =
     [(''name'', JString ''orange-build''),
      (''containers'', JArray [JObject [(''class_name'', JString ''Other''),
                                         (''max_instances'', JNumber ''10'')]])]"

definition null_container :: "(string \<times> json) list" where
  "null_container = [(''name'', JString ''orange-build''), (''containers'', JArray [JNull])]"

text \<open>A library that reads every document as a given value (\<open>None\<close> is \<open>undefined\<close>) and
  proposes no edit.\<close>

definition jsonc_reading :: "json option \<Rightarrow> jsonc" where
  "jsonc_reading v = \<lparr> parse = (\<lambda>c. Inr v), modify = (\<lambda>c p n. Inr []),
                       applyEdits = (\<lambda>c es. Inr c) \<rparr>"

definition world_without_containers :: world where
  "world_without_containers =
     \<lparr> files = [wranglerPath \<mapsto> File (''{ '' @ dq @ ''name'' @ dq @ '': '' @ dq @ ''orange-build'' @ dq @ '' }'')],
       trace = [] \<rparr>"

definition host_broken :: host where
  "host_broken = \<lparr> unreadable = (\<lambda>p. True), unwritable = (\<lambda>p. True),
                   io_error = (\<lambda>p. Thrown None (Some ''EACCES'')),
                   exec = (\<lambda>cwd cmd fs. Inl (Thrown None (Some ''command failed''))),
                   large_number_text = (\<lambda>n. ''Infinity'') \<rparr>"

section \<open>Vocabulary of the patch\<close>

text \<open>The text of a list of tokens, each after its white space and comments.\<close>

definition print_tokens :: "(string \<times> string token) list \<Rightarrow> string" where
  "print_tokens ts = concat (map (\<lambda>(tr, t). tr @ token_text t) ts)"

text \<open>Two texts that a scanner which has stopped in front of them cannot tell apart: both
  are empty, or they start with the same character, or both start inside a word.\<close>

definition same_start :: "string \<Rightarrow> string \<Rightarrow> bool" where
  "same_start r r' =
    (case r of
       [] \<Rightarrow> r' = []
     | c # x \<Rightarrow> (case r' of [] \<Rightarrow> False
                | c' # x' \<Rightarrow> c = c' \<or> (\<not> is_delimiter c \<and> \<not> is_delimiter c')))"



text \<open>What the replacement of the literal at \<open>off\<close> does to an offset and a literal.\<close>

definition relocate :: "nat \<Rightarrow> string \<Rightarrow> string \<Rightarrow> nat \<times> string \<Rightarrow> nat \<times> string" where
  "relocate off old new x =
    (case x of (o', w) \<Rightarrow>
       if o' < off then (o', w) else if o' = off then (off, new)
       else (o' + length new - length old, w))"









section \<open>Properties\<close>

subsection \<open>Strings and traces\<close>

lemma startsWith_append: "startsWith (p @ r) p"
  by (induction p) auto

lemma includes_str_prefix: "includes_str (v @ b) v"
proof (cases "v @ b")
  case Nil
  then show ?thesis by simp
next
  case (Cons c cs)
  have "startsWith (v @ b) v" by (rule startsWith_append)
  with Cons show ?thesis by simp
qed

lemma includes_str_append: "includes_str (a @ v @ b) v"
  by (induction a) (simp_all add: includes_str_prefix)

lemma includes_str_join: "v \<in> set xs \<Longrightarrow> includes_str (a @ join sep xs @ b) v"
proof (induction sep xs arbitrary: a rule: join.induct)
  case (1 sep)
  then show ?case by simp
next
  case (2 sep x)
  then show ?case using includes_str_append by simp
next
  case (3 sep x y ys)
  show ?case
  proof (cases "v = x")
    case True
    then show ?thesis using includes_str_append[of a x "sep @ join sep (y # ys) @ b"] by simp
  next
    case False
    with 3 have "v \<in> set (y # ys)" by simp
    from 3(1)[OF this, of "a @ x @ sep"] show ?thesis by simp
  qed
qed

lemma since_append: "trace w' = trace w @ evs \<Longrightarrow> since w w' = evs"
  by (simp add: since_def)

lemma trace_emit [simp]: "trace (emit e w) = trace w @ [e]"
  by (simp add: emit_def)

lemma files_emit [simp]: "files (emit e w) = files w"
  by (simp add: emit_def)

lemma token_event_not_create: "token_event e \<Longrightarrow> \<not> is_create e"
  by (cases e) (simp_all add: token_event_def)

lemma token_event_not_get: "\<not> token_event (GatewayGet t g)"
  by (simp add: token_event_def)

lemma is_console_not_create: "is_console e \<Longrightarrow> \<not> is_create e"
  by (cases e) simp_all

lemma is_warn_not_create: "is_warn e \<Longrightarrow> \<not> is_create e"
  by (cases e) simp_all

lemma is_warn_console: "is_warn e \<Longrightarrow> is_console e"
  by (cases e) simp_all

subsection \<open>Environment validation\<close>

text \<open>
  Claim C6. \<open>validateEnvironment\<close> succeeds exactly when each of the three required
  variables has a non-empty value. Otherwise it throws one \<open>DeploymentError\<close> and leaves
  the world as it was (no event, so no network or file access); the constructor fails with
  the same error before it reads the configuration; the names in the message are exactly
  the required names that are unset or empty, and each of them occurs in the message.
\<close>

theorem validateEnvironment_lists_all_missing:
  "(fst (validateEnvironment penv w) = Inr ()
      \<longleftrightarrow> (\<forall>v \<in> set requiredVars. \<exists>s. penv v = Some s \<and> s \<noteq> []))
   \<and> (fst (validateEnvironment penv w) \<noteq> Inr () \<longrightarrow>
        validateEnvironment penv w = (Inl (DeploymentError (missing_message (missing_of penv)) None), w)
        \<and> new_CloudflareDeploymentManager lib h penv w
            = (Inl (DeploymentError (missing_message (missing_of penv)) None), w)
        \<and> set (missing_of penv) = {v \<in> set requiredVars. \<not> (\<exists>s. penv v = Some s \<and> s \<noteq> [])}
        \<and> (\<forall>v \<in> set (missing_of penv). includes_str (missing_message (missing_of penv)) v))"
proof -
  have t: "\<And>v. truthy (penv v) \<longleftrightarrow> (\<exists>s. penv v = Some s \<and> s \<noteq> [])"
    by (auto simp: truthy_def split: option.splits)
  have a: "fst (validateEnvironment penv w) = Inr () \<longleftrightarrow> missing_of penv = []"
    by (simp add: validateEnvironment_def missing_of_def Let_def)
  have b: "missing_of penv = [] \<longleftrightarrow> (\<forall>v \<in> set requiredVars. \<exists>s. penv v = Some s \<and> s \<noteq> [])"
    unfolding missing_of_def filter_empty_conv using t by simp
  have c: "missing_of penv \<noteq> [] \<Longrightarrow>
      validateEnvironment penv w = (Inl (DeploymentError (missing_message (missing_of penv)) None), w)"
    by (simp add: validateEnvironment_def missing_of_def Let_def)
  have d: "set (missing_of penv) = {v \<in> set requiredVars. \<not> (\<exists>s. penv v = Some s \<and> s \<noteq> [])}"
    unfolding missing_of_def using t by auto
  have e: "\<forall>v \<in> set (missing_of penv). includes_str (missing_message (missing_of penv)) v"
    unfolding missing_message_def using includes_str_join by blast
  show ?thesis using a b c d e
    by (auto simp: new_CloudflareDeploymentManager_def bind_w_def)
qed

theorem validateEnvironment_lists_all_missing_witness:
  "fst (validateEnvironment env_token_only empty_world) \<noteq> Inr ()
   \<and> validateEnvironment env_token_only empty_world
       = (Inl (DeploymentError (missing_message [''CLOUDFLARE_ACCOUNT_ID'', ''TEMPLATES_REPOSITORY'']) None),
          empty_world)
   \<and> set (missing_of env_token_only) = {''CLOUDFLARE_ACCOUNT_ID'', ''TEMPLATES_REPOSITORY''}
   \<and> includes_str (missing_message (missing_of env_token_only)) ''TEMPLATES_REPOSITORY''"
proof -
  have m: "missing_of env_token_only = [''CLOUDFLARE_ACCOUNT_ID'', ''TEMPLATES_REPOSITORY'']"
    by (simp add: missing_of_def env_token_only_def requiredVars_def truthy_def)
  have f: "fst (validateEnvironment env_token_only empty_world) \<noteq> Inr ()"
    using m by (simp add: validateEnvironment_def missing_of_def Let_def)
  from validateEnvironment_lists_all_missing[of env_token_only empty_world] f m
  show ?thesis by simp
qed

subsection \<open>The namespace step\<close>

lemma indexOf_from_ge: "indexOf_from i s p \<noteq> - 1 \<Longrightarrow> int i \<le> indexOf_from i s p"
  by (induction i s p rule: indexOf_from.induct) (auto split: if_splits)

lemma indexOf_from_includes: "indexOf_from i s p = - 1 \<longleftrightarrow> \<not> includes_str s p"
proof (induction i s p rule: indexOf_from.induct)
  case (1 i p)
  then show ?case by simp
next
  case (2 i c cs p)
  then show ?case by auto
qed

lemma indexOf_includes: "indexOf s p = - 1 \<longleftrightarrow> \<not> includes_str s p"
  by (simp add: indexOf_def indexOf_from_includes)

text \<open>When the error has a message, the two tests agree.\<close>
lemma rethrown_with_message:
  "opt_message e = Some m \<Longrightarrow> rethrown e = not_a_404 e"
  by (simp add: rethrown_def not_a_404_def indexOf_includes)

lemma rethrown_without_message:
  "opt_message e = None \<Longrightarrow> \<not> rethrown e"
  by (simp add: rethrown_def)

lemma not_a_404_without_message:
  "opt_message e = None \<Longrightarrow> not_a_404 e = (opt_status e \<noteq> Some 404)"
  by (simp add: not_a_404_def)

text \<open>
  Claim C1, at the input where it fails: the lookup of the namespace is rejected with
  status 500 and no message. The test of line 172 does not rethrow it, and the namespace
  step goes on to create the namespace and succeeds.
\<close>

theorem ensureDispatchNamespace_creates_after_error_without_message:
  "\<not> rethrown (Thrown (Some 500) None)
   \<and> ensureDispatchNamespace api_500_without_message manager0 empty_world =
     (Inr (),
      \<lparr> files = Map.empty,
        trace = [Log ''Checking dispatch namespace: orange-build-default-namespace'',
                 NamespaceGet ''orange-build-default-namespace'',
                 Log ''Creating dispatch namespace: orange-build-default-namespace'',
                 NamespaceCreate ''orange-build-default-namespace'',
                 Log ''Successfully created dispatch namespace: orange-build-default-namespace''] \<rparr>)"
  by (simp add: ensureDispatchNamespace_def api_500_without_message_def api_absent_def manager0_def
        config0_def empty_world_def rethrown_def emit_def Let_def)


lemma ensureDispatchNamespace_shape:
  "files (snd (ensureDispatchNamespace api this w)) = files w \<and>
   (since w (snd (ensureDispatchNamespace api this w)) = [] \<or>
    (\<exists>n tail. since w (snd (ensureDispatchNamespace api this w))
                 = Log (''Checking dispatch namespace: '' @ n) # NamespaceGet n # tail
       \<and> (case namespaces_get api n of
             Inr _ \<Rightarrow> fst (ensureDispatchNamespace api this w) = Inr ()
                      \<and> tail = [Log (''Dispatch namespace '' @ n @ '' already exists'')]
           | Inl e \<Rightarrow>
               if rethrown e then tail = [] \<and> fst (ensureDispatchNamespace api this w) \<noteq> Inr ()
               else (\<exists>rest. tail = Log (''Creating dispatch namespace: '' @ n) # NamespaceCreate n # rest
                            \<and> list_all is_console rest))))"
proof (cases "dispatch_namespaces (config this)")
  case None
  then show ?thesis by (simp add: ensureDispatchNamespace_def since_def)
next
  case (Some ds)
  show ?thesis
  proof (cases ds)
    case Nil
    with Some show ?thesis by (simp add: ensureDispatchNamespace_def since_def)
  next
    case (Cons d ds')
    show ?thesis
    proof (cases "namespaces_get api (namespace d)")
      case (Inr u)
      with Some Cons show ?thesis
        by (simp add: ensureDispatchNamespace_def Let_def since_def)
    next
      case (Inl e)
      show ?thesis
      proof (cases "rethrown e")
        case True
        with Some Cons Inl show ?thesis
          by (simp add: ensureDispatchNamespace_def Let_def since_def)
      next
        case False
        with Some Cons Inl show ?thesis
          by (cases "namespaces_create api (namespace d)")
             (simp_all add: ensureDispatchNamespace_def Let_def since_def)
      qed
    qed
  qed
qed

lemma console_no_creations: "list_all is_console evs \<Longrightarrow> filter is_create evs = []"
  by (induction evs) (auto dest: is_console_not_create)

lemma token_no_creations: "list_all token_event evs \<Longrightarrow> filter is_create evs = []"
  by (induction evs) (auto dest: token_event_not_create)

lemma warn_no_creations: "list_all is_warn evs \<Longrightarrow> filter is_create evs = []"
  by (induction evs) (auto dest: is_warn_not_create)

lemma console_no_namespace_get: "list_all is_console evs \<Longrightarrow> NamespaceGet n \<notin> set evs"
  by (induction evs) auto

text \<open>One namespace step: at most one creation call, and none when its lookup succeeds.\<close>

lemma ensureDispatchNamespace_creations:
  "creations (since w (snd (ensureDispatchNamespace api this w))) \<le> 1"
  "NamespaceGet n \<in> set (since w (snd (ensureDispatchNamespace api this w)))
     \<Longrightarrow> namespaces_get api n = Inr ()
     \<Longrightarrow> fst (ensureDispatchNamespace api this w) = Inr ()
         \<and> since w (snd (ensureDispatchNamespace api this w))
             = [Log (''Checking dispatch namespace: '' @ n), NamespaceGet n,
                Log (''Dispatch namespace '' @ n @ '' already exists'')]"
proof -
  let ?new = "since w (snd (ensureDispatchNamespace api this w))"
  from ensureDispatchNamespace_shape[of api this w]
  consider (none) "?new = []"
    | (some) m tail where "?new = Log (''Checking dispatch namespace: '' @ m) # NamespaceGet m # tail"
      "(case namespaces_get api m of
             Inr _ \<Rightarrow> fst (ensureDispatchNamespace api this w) = Inr ()
                      \<and> tail = [Log (''Dispatch namespace '' @ m @ '' already exists'')]
           | Inl e \<Rightarrow>
               if rethrown e then tail = [] \<and> fst (ensureDispatchNamespace api this w) \<noteq> Inr ()
               else (\<exists>rest. tail = Log (''Creating dispatch namespace: '' @ m) # NamespaceCreate m # rest
                            \<and> list_all is_console rest))"
    by blast
  then show "creations ?new \<le> 1"
  proof cases
    case none
    then show ?thesis by (simp add: creations_def)
  next
    case some
    then show ?thesis
      by (auto simp: creations_def console_no_creations split: sum.splits if_splits)
  qed
  assume g: "NamespaceGet n \<in> set ?new" "namespaces_get api n = Inr ()"
  from ensureDispatchNamespace_shape[of api this w]
  consider (none) "?new = []"
    | (some) m tail where "?new = Log (''Checking dispatch namespace: '' @ m) # NamespaceGet m # tail"
      "(case namespaces_get api m of
             Inr _ \<Rightarrow> fst (ensureDispatchNamespace api this w) = Inr ()
                      \<and> tail = [Log (''Dispatch namespace '' @ m @ '' already exists'')]
           | Inl e \<Rightarrow>
               if rethrown e then tail = [] \<and> fst (ensureDispatchNamespace api this w) \<noteq> Inr ()
               else (\<exists>rest. tail = Log (''Creating dispatch namespace: '' @ m) # NamespaceCreate m # rest
                            \<and> list_all is_console rest))"
    by blast
  then show "fst (ensureDispatchNamespace api this w) = Inr ()
         \<and> ?new = [Log (''Checking dispatch namespace: '' @ n), NamespaceGet n,
                Log (''Dispatch namespace '' @ n @ '' already exists'')]"
  proof cases
    case none
    with g show ?thesis by simp
  next
    case some
    have "m = n"
    proof (rule ccontr)
      assume "m \<noteq> n"
      with g(1) some(1) have "NamespaceGet n \<in> set tail" by auto
      with some(2) show False
        by (auto split: sum.splits if_splits dest: console_no_namespace_get)
    qed
    with some g(2) show ?thesis by simp
  qed
qed

subsection \<open>The gateway step\<close>

lemma checkTokenPermissions_world:
  "\<exists>m. snd (checkTokenPermissions api this w) =
        emit m (emit (TokenVerify (CLOUDFLARE_API_TOKEN (env this))) w) \<and> is_console m"
  by (auto simp: checkTokenPermissions_def Let_def split: sum.splits response.splits)

lemma issueAIGatewayToken_shape:
  assumes "issueAIGatewayToken api this w = (r, this', w')"
  shows "\<exists>evs. trace w' = trace w @ Log ''Creating AI Gateway authentication token...''
             # TokenIssue (CLOUDFLARE_API_TOKEN (env this)) # evs
           \<and> list_all is_console evs \<and> files w' = files w \<and> env this' = env this
           \<and> config this' = config this
           \<and> (case r of Inl e \<Rightarrow> this' = this \<and> evs = []
               | Inr t \<Rightarrow> t \<noteq> [] \<and> aiGatewayCloudflare this' = Some t)"
  using assms
  by (auto simp: issueAIGatewayToken_def Let_def split: sum.splits response.splits option.splits if_splits)

lemma ensureAIGatewayToken_shape:
  assumes "ensureAIGatewayToken api this w = (r, this', w')"
  shows "\<exists>evs tok. r = Inr tok \<and> trace w' = trace w @ evs \<and> files w' = files w
           \<and> env this' = env this \<and> config this' = config this
           \<and> list_all (\<lambda>e. is_console e \<or> is_issue e) evs
           \<and> (case tok of None \<Rightarrow> this' = this \<and> list_ex is_warn evs
               | Some t \<Rightarrow> t \<noteq> [] \<and> aiGatewayCloudflare this' = Some t)"
proof (cases "usable_token (CLOUDFLARE_AI_GATEWAY_TOKEN (env this))")
  case (Some t)
  then have "t \<noteq> []" by (auto simp: usable_token_def split: option.splits if_splits)
  with Some assms show ?thesis by (auto simp: ensureAIGatewayToken_def)
next
  case None
  obtain r1 this1 w1 where i: "issueAIGatewayToken api this w = (r1, this1, w1)"
    by (cases "issueAIGatewayToken api this w") auto
  from issueAIGatewayToken_shape[OF i] obtain evs where
    e: "trace w1 = trace w @ Log ''Creating AI Gateway authentication token...''
             # TokenIssue (CLOUDFLARE_API_TOKEN (env this)) # evs"
       "list_all is_console evs" "files w1 = files w" "env this1 = env this" "config this1 = config this"
       "(case r1 of Inl e \<Rightarrow> this1 = this \<and> evs = []
               | Inr t \<Rightarrow> t \<noteq> [] \<and> aiGatewayCloudflare this1 = Some t)"
    by blast
  have mono: "list_all (\<lambda>e. is_console e \<or> is_issue e) evs"
    using e(2) by (simp add: list_all_iff)
  show ?thesis
  proof (cases r1)
    case (Inl err)
    with assms None i have "r = Inr None" "this' = this1"
      "w' = emit (Warn ''AI Gateway will be created without authentication...'')
                 (emit (Warn (''Could not create AI Gateway token: '' @ describe err)) w1)"
      by (simp_all add: ensureAIGatewayToken_def)
    with e Inl show ?thesis by simp
  next
    case (Inr t)
    with assms None i have "r = Inr (Some t)" "this' = this1" "w' = w1"
      by (simp_all add: ensureAIGatewayToken_def)
    with e Inr mono show ?thesis by simp
  qed
qed

lemma issueAIGatewayToken_fst:
  "fst (issueAIGatewayToken api this w) = fst (issueAIGatewayToken api this w0)"
  by (simp add: issueAIGatewayToken_def Let_def split: sum.splits response.splits option.splits)

lemma token_result_indep: "token_result api this w = token_result api this w0"
  unfolding token_result_def
  by (subst issueAIGatewayToken_fst[of api this w w0]) (rule refl)

lemma ensureAIGatewayToken_result:
  "fst (ensureAIGatewayToken api this w) = Inr (token_result api this w)"
  by (cases "issueAIGatewayToken api this w")
     (auto simp: ensureAIGatewayToken_def token_result_def split: option.splits sum.splits)

lemma ensureAIGatewayToken_reuse:
  assumes "usable_token (CLOUDFLARE_AI_GATEWAY_TOKEN (env this)) = Some t"
  shows "ensureAIGatewayToken api this w =
           (Inr (Some t), this\<lparr>aiGatewayCloudflare := Some t\<rparr>,
            emit (Log ''AI Gateway token already configured'') w)"
  using assms by (simp add: ensureAIGatewayToken_def)

lemma ensureAIGateway_lookup_shape:
  "\<exists>tail. trace (snd (ensureAIGateway_lookup api g tok this w))
            = trace w @ GatewayGet (getAIGatewaySDK this) g # tail
    \<and> files (snd (ensureAIGateway_lookup api g tok this w)) = files w
    \<and> lookup_tail api g tok (getAIGatewaySDK this) (fst (ensureAIGateway_lookup api g tok this w)) tail"
proof (cases "aiGateway_get api (getAIGatewaySDK this) g")
  case (Inr u)
  then show ?thesis by (simp add: ensureAIGateway_lookup_def lookup_tail_def Let_def)
next
  case (Inl e)
  show ?thesis
  proof (cases "not_a_404 e")
    case True
    with Inl show ?thesis
      by (cases e) (simp_all add: ensureAIGateway_lookup_def lookup_tail_def Let_def)
  next
    case False
    show ?thesis
    proof (cases "length g > 64")
      case True
      with Inl \<open>\<not> not_a_404 e\<close> show ?thesis
        by (simp add: ensureAIGateway_lookup_def lookup_tail_def Let_def)
    next
      case False
      with Inl \<open>\<not> not_a_404 e\<close> show ?thesis
        by (cases "aiGateway_create api (getAIGatewaySDK this) g (tok \<noteq> None)")
           (simp_all add: ensureAIGateway_lookup_def lookup_tail_def Let_def)
    qed
  qed
qed

lemma ensureAIGateway_body_shape:
  "\<exists>evs this3 tail.
      list_all token_event evs
    \<and> (usable_token (CLOUDFLARE_AI_GATEWAY_TOKEN (env this)) \<noteq> None \<longrightarrow> \<not> list_ex is_issue evs)
    \<and> (token_result api this w = None \<longrightarrow> list_ex is_warn evs \<and> this3 = this)
    \<and> (\<forall>t. token_result api this w = Some t \<longrightarrow> getAIGatewaySDK this3 = t)
    \<and> trace (snd (snd (ensureAIGateway_body api g this w)))
         = trace w @ evs @ GatewayGet (getAIGatewaySDK this3) g # tail
    \<and> files (snd (snd (ensureAIGateway_body api g this w))) = files w
    \<and> lookup_tail api g (token_result api this w) (getAIGatewaySDK this3)
         (fst (ensureAIGateway_body api g this w)) tail"
proof -
  define w1 where "w1 = emit (Log ''Checking API token permissions...'') w"
  obtain m where c: "snd (checkTokenPermissions api this w1) =
        emit m (emit (TokenVerify (CLOUDFLARE_API_TOKEN (env this))) w1)" "is_console m"
    using checkTokenPermissions_world by blast
  define w2 where "w2 = snd (checkTokenPermissions api this w1)"
  obtain r0 this3 w3 where t: "ensureAIGatewayToken api this w2 = (r0, this3, w3)"
    by (cases "ensureAIGatewayToken api this w2") auto
  from ensureAIGatewayToken_shape[OF t] obtain evs tok where
    e: "r0 = Inr tok" "trace w3 = trace w2 @ evs" "env this3 = env this"
       "list_all (\<lambda>e. is_console e \<or> is_issue e) evs"
       "(case tok of None \<Rightarrow> this3 = this \<and> list_ex is_warn evs
               | Some t \<Rightarrow> t \<noteq> [] \<and> aiGatewayCloudflare this3 = Some t)"
       "files w3 = files w2"
    by blast
  have tok: "tok = token_result api this w"
    using ensureAIGatewayToken_result[of api this w2] t e(1) token_result_indep[of api this w2 w]
    by simp
  define pre where "pre = [Log ''Checking API token permissions...'',
                           TokenVerify (CLOUDFLARE_API_TOKEN (env this)), m] @ evs"
  have tr3: "trace w3 = trace w @ pre"
    using e(2) c(1) by (simp add: w2_def w1_def pre_def)
  have f3: "files w3 = files w"
    using e(6) c(1) by (simp add: w2_def w1_def)
  have pre_ok: "list_all token_event pre"
    using e(4) c(2) by (auto simp: pre_def token_event_def list_all_iff)
  have no_issue: "usable_token (CLOUDFLARE_AI_GATEWAY_TOKEN (env this)) \<noteq> None \<longrightarrow> \<not> list_ex is_issue pre"
  proof
    assume "usable_token (CLOUDFLARE_AI_GATEWAY_TOKEN (env this)) \<noteq> None"
    then obtain u where u: "usable_token (CLOUDFLARE_AI_GATEWAY_TOKEN (env this)) = Some u" by auto
    from ensureAIGatewayToken_reuse[OF u, of api w2] t e(2)
    have "evs = [Log ''AI Gateway token already configured'']" by simp
    with c(2) show "\<not> list_ex is_issue pre"
      by (cases m) (auto simp: pre_def)
  qed
  have warn: "token_result api this w = None \<longrightarrow> list_ex is_warn pre \<and> this3 = this"
    using e(5) tok by (auto simp: pre_def list_ex_iff)
  have sdk: "\<forall>t. token_result api this w = Some t \<longrightarrow> getAIGatewaySDK this3 = t"
    using e(5) tok by (auto simp: getAIGatewaySDK_def)
  have body: "ensureAIGateway_body api g this w =
     (case ensureAIGateway_lookup api g tok this3 w3 of (r, w') \<Rightarrow> (r, this3, w'))"
    using t e(1) by (simp add: ensureAIGateway_body_def Let_def case_prod_beta w1_def w2_def)
  from ensureAIGateway_lookup_shape[of api g tok this3 w3] obtain tail where
    l: "trace (snd (ensureAIGateway_lookup api g tok this3 w3))
            = trace w3 @ GatewayGet (getAIGatewaySDK this3) g # tail"
       "files (snd (ensureAIGateway_lookup api g tok this3 w3)) = files w3"
       "lookup_tail api g tok (getAIGatewaySDK this3) (fst (ensureAIGateway_lookup api g tok this3 w3)) tail"
    by blast
  have A: "trace (snd (snd (ensureAIGateway_body api g this w)))
         = trace w @ pre @ GatewayGet (getAIGatewaySDK this3) g # tail"
    using l(1) tr3 by (simp add: body case_prod_beta)
  have B: "files (snd (snd (ensureAIGateway_body api g this w))) = files w"
    using l(2) f3 by (simp add: body case_prod_beta)
  have C: "lookup_tail api g (token_result api this w) (getAIGatewaySDK this3)
         (fst (ensureAIGateway_body api g this w)) tail"
    using l(3) tok by (simp add: body case_prod_beta)
  show ?thesis
    apply (rule exI[of _ pre], rule exI[of _ this3], rule exI[of _ tail])
    by (intro conjI) (rule pre_ok no_issue warn sdk A B C)+
qed

lemma ensureAIGateway_shape:
  assumes g: "CLOUDFLARE_AI_GATEWAY (env this) = Some g" "g \<noteq> []"
  shows "\<exists>evs sdk tail.
      list_all token_event evs
    \<and> (usable_token (CLOUDFLARE_AI_GATEWAY_TOKEN (env this)) \<noteq> None \<longrightarrow> \<not> list_ex is_issue evs)
    \<and> (token_result api this w = None \<longrightarrow> list_ex is_warn evs \<and> sdk = getAIGatewaySDK this)
    \<and> (\<forall>t. token_result api this w = Some t \<longrightarrow> sdk = t)
    \<and> fst (ensureAIGateway api this w) = Inr ()
    \<and> files (snd (snd (ensureAIGateway api this w))) = files w
    \<and> trace (snd (snd (ensureAIGateway api this w)))
         = trace w @ Log (''Checking AI Gateway: '' @ g) # evs @ GatewayGet sdk g # tail
    \<and> gateway_tail api g (token_result api this w) sdk tail"
proof -
  define w0 where "w0 = emit (Log (''Checking AI Gateway: '' @ g)) w"
  have tr: "token_result api this w0 = token_result api this w"
    by (rule token_result_indep)
  note bs = ensureAIGateway_body_shape[where api=api and this=this and w=w0 and g=g, unfolded tr]
  from bs show ?thesis
  proof (elim exE conjE)
  fix evs this3 tail
  assume b: "list_all token_event evs"
       "usable_token (CLOUDFLARE_AI_GATEWAY_TOKEN (env this)) \<noteq> None \<longrightarrow> \<not> list_ex is_issue evs"
       "token_result api this w = None \<longrightarrow> list_ex is_warn evs \<and> this3 = this"
       "\<forall>t. token_result api this w = Some t \<longrightarrow> getAIGatewaySDK this3 = t"
       "trace (snd (snd (ensureAIGateway_body api g this w0)))
         = trace w0 @ evs @ GatewayGet (getAIGatewaySDK this3) g # tail"
       "files (snd (snd (ensureAIGateway_body api g this w0))) = files w0"
       "lookup_tail api g (token_result api this w) (getAIGatewaySDK this3)
         (fst (ensureAIGateway_body api g this w0)) tail"
  obtain r thisb wb where body: "ensureAIGateway_body api g this w0 = (r, thisb, wb)"
    by (cases "ensureAIGateway_body api g this w0") auto
  define sdk where "sdk = getAIGatewaySDK this3"
  define tail' where "tail' = (case r of Inr _ \<Rightarrow> tail
       | Inl error \<Rightarrow> tail @ [Warn (''Could not create AI Gateway '' @ g @ '': '' @ describe error),
                              Warn ''Continuing deployment without AI Gateway setup...''])"
  have res: "fst (ensureAIGateway api this w) = Inr ()"
    using g body by (cases r) (simp_all add: ensureAIGateway_def w0_def)
  have fl: "files (snd (snd (ensureAIGateway api this w))) = files w"
    using g body b(6) by (cases r) (simp_all add: ensureAIGateway_def w0_def)
  have trc: "trace (snd (snd (ensureAIGateway api this w)))
         = trace w @ Log (''Checking AI Gateway: '' @ g) # evs @ GatewayGet sdk g # tail'"
    using g body b(5) by (cases r) (simp_all add: ensureAIGateway_def w0_def tail'_def sdk_def)
  have lt: "lookup_tail api g (token_result api this w) sdk r tail"
    using b(7) body by (simp add: sdk_def)
  have gt: "gateway_tail api g (token_result api this w) sdk tail'"
  proof (cases "aiGateway_get api sdk g")
    case (Inr u)
    with lt show ?thesis by (simp add: lookup_tail_def gateway_tail_def tail'_def)
  next
    case (Inl e)
    show ?thesis
    proof (cases "not_a_404 e")
      case True
      with Inl lt show ?thesis by (auto simp: lookup_tail_def gateway_tail_def tail'_def TypeError_def)
    next
      case False
      show ?thesis
      proof (cases "length g > 64")
        case True
        with Inl \<open>\<not> not_a_404 e\<close> lt show ?thesis
          by (simp add: lookup_tail_def gateway_tail_def tail'_def)
      next
        case False
        with Inl \<open>\<not> not_a_404 e\<close> lt show ?thesis
          by (cases r) (auto simp: lookup_tail_def gateway_tail_def tail'_def)
      qed
    qed
  qed
  have w3: "token_result api this w = None \<longrightarrow> list_ex is_warn evs \<and> sdk = getAIGatewaySDK this"
    using b(3) by (simp add: sdk_def)
  have s3: "\<forall>t. token_result api this w = Some t \<longrightarrow> sdk = t"
    using b(4) by (simp add: sdk_def)
  show ?thesis
    apply (rule exI[of _ evs], rule exI[of _ sdk], rule exI[of _ tail'])
    by (intro conjI) (rule b(1) b(2) w3 s3 res fl trc gt)+
qed
qed

lemma gateway_tail_console_or_create:
  assumes "gateway_tail api g tok sdk tail"
  shows "\<forall>e \<in> set tail. is_console e \<or> e = GatewayCreate sdk g (tok \<noteq> None)"
  using assms
  by (auto simp: gateway_tail_def list_all_iff split: sum.splits if_splits dest: is_warn_console)

text \<open>
  Claim C7 as stated fails: a name of 80 characters whose lookup finds a gateway is not
  skipped with a warning. The step reports that the gateway exists, and the run has no
  warning at all.
\<close>

theorem gateway_over_limit_found_without_warning:
  "length long_gateway_name = 80
   \<and> fst (ensureAIGateway api_present manager_long_gateway_token empty_world) = Inr ()
   \<and> since empty_world (snd (snd (ensureAIGateway api_present manager_long_gateway_token empty_world)))
       = [Log (''Checking AI Gateway: '' @ long_gateway_name),
          Log ''Checking API token permissions...'',
          TokenVerify ''secret'',
          Log ''Main API token verified, but will create dedicated AI Gateway token'',
          Log ''AI Gateway token already configured'',
          GatewayGet ''gateway-token'' long_gateway_name,
          Log (''AI Gateway '' @ long_gateway_name @ '' already exists'')]
   \<and> \<not> list_ex is_warn
         (since empty_world (snd (snd (ensureAIGateway api_present manager_long_gateway_token empty_world))))"
proof -
  have ne: "long_gateway_name \<noteq> []" by (simp add: long_gateway_name_def)
  have run: "ensureAIGateway api_present manager_long_gateway_token empty_world
    = (Inr (), manager_long_gateway_token\<lparr>aiGatewayCloudflare := Some ''gateway-token''\<rparr>,
       \<lparr> files = Map.empty,
         trace = [Log (''Checking AI Gateway: '' @ long_gateway_name),
                  Log ''Checking API token permissions...'',
                  TokenVerify ''secret'',
                  Log ''Main API token verified, but will create dedicated AI Gateway token'',
                  Log ''AI Gateway token already configured'',
                  GatewayGet ''gateway-token'' long_gateway_name,
                  Log (''AI Gateway '' @ long_gateway_name @ '' already exists'')] \<rparr>)"
    using ne
    by (simp add: ensureAIGateway_def ensureAIGateway_body_def checkTokenPermissions_def
          ensureAIGatewayToken_def usable_token_def placeholder_token_def ensureAIGateway_lookup_def
          getAIGatewaySDK_def manager_long_gateway_token_def manager0_def env0_def api_present_def
          api_absent_def empty_world_def emit_def truthy_def Let_def)
  show ?thesis
    unfolding run by (simp add: since_def empty_world_def) (simp add: long_gateway_name_def)
qed

text \<open>
  Claim C7, as amended. When the configured gateway name is longer than 64 characters, the
  gateway step never throws and never calls a creation. It looks the gateway up once, after
  the events of the token. When that lookup fails, everything the step does afterwards is
  a warning (there is at least one), and when the failure is the not-found signal, which
  is where a creation would follow, it is the one warning about the length of the name.
  When the lookup finds the gateway the step reports that it exists.
\<close>

theorem gateway_name_over_limit_never_creates:
  assumes "CLOUDFLARE_AI_GATEWAY (env this) = Some g" and "length g > 64"
  shows "fst (ensureAIGateway api this w) = Inr ()
       \<and> \<not> list_ex is_create (since w (snd (snd (ensureAIGateway api this w))))
       \<and> (\<exists>tok evs tail.
             since w (snd (snd (ensureAIGateway api this w)))
               = Log (''Checking AI Gateway: '' @ g) # evs @ GatewayGet tok g # tail
           \<and> list_all token_event evs
           \<and> (case aiGateway_get api tok g of
                 Inr u \<Rightarrow> tail = [Log (''AI Gateway '' @ g @ '' already exists'')]
               | Inl e \<Rightarrow>
                   tail \<noteq> [] \<and> list_all is_warn tail
                   \<and> (\<not> not_a_404 e \<longrightarrow>
                        tail = [Warn (''AI Gateway name too long ('' @ string_of_nat (length g) @
                                      '' > 64 chars), skipping creation'')])))"
proof -
  from assms have ne: "g \<noteq> []" by auto
  from ensureAIGateway_shape[OF assms(1) ne, of api w] show ?thesis
  proof (elim exE conjE)
    fix evs sdk tail
    assume s: "list_all token_event evs"
      "fst (ensureAIGateway api this w) = Inr ()"
      "trace (snd (snd (ensureAIGateway api this w)))
         = trace w @ Log (''Checking AI Gateway: '' @ g) # evs @ GatewayGet sdk g # tail"
      "gateway_tail api g (token_result api this w) sdk tail"
    define new where "new = Log (''Checking AI Gateway: '' @ g) # evs @ GatewayGet sdk g # tail"
    have sn: "since w (snd (snd (ensureAIGateway api this w))) = new"
      using s(3) by (simp add: since_def new_def)
    have tl: "\<forall>e \<in> set tail. is_console e"
      using s(4) assms(2)
      by (auto simp: gateway_tail_def list_all_iff split: sum.splits if_splits dest: is_warn_console)
    have nc: "\<not> list_ex is_create new"
      using s(1) tl by (auto simp: new_def list_ex_iff list_all_iff dest: token_event_not_create is_console_not_create)
    have ct: "(case aiGateway_get api sdk g of
                 Inr u \<Rightarrow> tail = [Log (''AI Gateway '' @ g @ '' already exists'')]
               | Inl e \<Rightarrow>
                   tail \<noteq> [] \<and> list_all is_warn tail
                   \<and> (\<not> not_a_404 e \<longrightarrow>
                        tail = [Warn (''AI Gateway name too long ('' @ string_of_nat (length g) @
                                      '' > 64 chars), skipping creation'')]))"
      using s(4) assms(2) by (auto simp: gateway_tail_def split: sum.splits if_splits)
    have ex: "\<exists>tok evs' tail'.
             new = Log (''Checking AI Gateway: '' @ g) # evs' @ GatewayGet tok g # tail'
           \<and> list_all token_event evs'
           \<and> (case aiGateway_get api tok g of
                 Inr u \<Rightarrow> tail' = [Log (''AI Gateway '' @ g @ '' already exists'')]
               | Inl e \<Rightarrow>
                   tail' \<noteq> [] \<and> list_all is_warn tail'
                   \<and> (\<not> not_a_404 e \<longrightarrow>
                        tail' = [Warn (''AI Gateway name too long ('' @ string_of_nat (length g) @
                                       '' > 64 chars), skipping creation'')]))"
      apply (rule exI[of _ sdk], rule exI[of _ evs], rule exI[of _ tail])
      using s(1) ct by (simp add: new_def)
    show ?thesis
      unfolding sn using s(2) nc ex by (intro conjI)
  qed
qed

lemma string_of_nat_80: "string_of_nat 80 = ''80''"
  by (simp add: string_of_nat.simps digit_char_def)

theorem gateway_name_over_limit_never_creates_witness:
  "CLOUDFLARE_AI_GATEWAY (env manager_long_gateway) = Some long_gateway_name
   \<and> length long_gateway_name = 80
   \<and> fst (ensureAIGateway api_absent manager_long_gateway empty_world) = Inr ()
   \<and> \<not> list_ex is_create
         (since empty_world (snd (snd (ensureAIGateway api_absent manager_long_gateway empty_world))))
   \<and> last (since empty_world (snd (snd (ensureAIGateway api_absent manager_long_gateway empty_world))))
       = Warn ''AI Gateway name too long (80 > 64 chars), skipping creation''"
proof -
  have h1: "CLOUDFLARE_AI_GATEWAY (env manager_long_gateway) = Some long_gateway_name"
    by (simp add: manager_long_gateway_def)
  have h2: "length long_gateway_name > 64" and h3: "length long_gateway_name = 80"
    by (simp_all add: long_gateway_name_def)
  have get: "aiGateway_get api_absent tok long_gateway_name = Inl (Thrown (Some 404) (Some ''Not Found''))"
    for tok by (simp add: api_absent_def)
  have nf: "\<not> not_a_404 (Thrown (Some 404) (Some ''Not Found''))"
    by (simp add: not_a_404_def)
  from gateway_name_over_limit_never_creates[OF h1 h2, of api_absent empty_world]
  have r: "fst (ensureAIGateway api_absent manager_long_gateway empty_world) = Inr ()"
    "\<not> list_ex is_create
         (since empty_world (snd (snd (ensureAIGateway api_absent manager_long_gateway empty_world))))"
    and l: "last (since empty_world (snd (snd (ensureAIGateway api_absent manager_long_gateway empty_world))))
       = Warn (''AI Gateway name too long ('' @ string_of_nat (length long_gateway_name) @
                                      '' > 64 chars), skipping creation'')"
    by (auto simp: get nf)
  from h1 h3 r l show ?thesis by (simp add: string_of_nat_80)
qed

lemma since_trans:
  assumes "trace w1 = trace w @ a" "trace w2 = trace w1 @ b"
  shows "since w w2 = since w w1 @ since w1 w2"
  using assms by (simp add: since_def)

lemma creations_append: "creations (a @ b) = creations a + creations b"
  by (simp add: creations_def)

lemma ensureDispatchNamespace_extends:
  "\<exists>evs. trace (snd (ensureDispatchNamespace api this w)) = trace w @ evs"
  by (simp add: ensureDispatchNamespace_def Let_def split: option.splits list.splits sum.splits)

lemma ensureDispatchNamespace_second_run:
  assumes "\<forall>n. NamespaceGet n \<in> set (since w (snd (ensureDispatchNamespace api this w)))
               \<longrightarrow> namespaces_get api n = Inr ()"
  shows "creations (since w (snd (ensureDispatchNamespace api this w))) = 0"
proof -
  let ?new = "since w (snd (ensureDispatchNamespace api this w))"
  from ensureDispatchNamespace_shape[of api this w]
  consider (none) "?new = []"
    | (some) m tail where "?new = Log (''Checking dispatch namespace: '' @ m) # NamespaceGet m # tail"
    by blast
  then show ?thesis
  proof cases
    case none
    then show ?thesis by (simp add: creations_def)
  next
    case some
    then have "NamespaceGet m \<in> set ?new" by simp
    with assms have "namespaces_get api m = Inr ()" by blast
    from ensureDispatchNamespace_creations(2)[OF \<open>NamespaceGet m \<in> set ?new\<close> this]
    show ?thesis by (simp add: creations_def)
  qed
qed

lemma ensureAIGateway_unconfigured:
  assumes "\<not> truthy (CLOUDFLARE_AI_GATEWAY (env this))"
  shows "ensureAIGateway api this w =
          (Inr (), this, emit (Log ''AI Gateway setup skipped (CLOUDFLARE_AI_GATEWAY not provided)'') w)"
  using assms by (auto simp: ensureAIGateway_def truthy_def split: option.splits)

lemma console_no_gateway_get: "list_all is_console evs \<Longrightarrow> GatewayGet t g \<notin> set evs"
  by (induction evs) auto

lemma warn_no_gateway_get: "list_all is_warn evs \<Longrightarrow> GatewayGet t g \<notin> set evs"
  by (induction evs) auto

lemma gateway_tail_creations:
  assumes "gateway_tail api g tok sdk tail"
  shows "creations tail \<le> 1"
    and "aiGateway_get api sdk g = Inr () \<Longrightarrow> tail = [Log (''AI Gateway '' @ g @ '' already exists'')]"
    and "GatewayGet t g' \<notin> set tail"
proof -
  show "creations tail \<le> 1"
    using assms
    by (auto simp: gateway_tail_def creations_def console_no_creations warn_no_creations
             split: sum.splits if_splits)
  show "aiGateway_get api sdk g = Inr () \<Longrightarrow> tail = [Log (''AI Gateway '' @ g @ '' already exists'')]"
    using assms by (simp add: gateway_tail_def)
  show "GatewayGet t g' \<notin> set tail"
    using assms
    by (auto simp: gateway_tail_def split: sum.splits if_splits
             dest: console_no_gateway_get warn_no_gateway_get)
qed

lemma token_no_gateway_get: "list_all token_event evs \<Longrightarrow> GatewayGet t g \<notin> set evs"
  by (induction evs) (auto simp: token_event_not_get)

lemma ensureAIGateway_extends:
  "\<exists>evs. trace (snd (snd (ensureAIGateway api this w))) = trace w @ evs"
proof (cases "truthy (CLOUDFLARE_AI_GATEWAY (env this))")
  case False
  then show ?thesis by (simp add: ensureAIGateway_unconfigured)
next
  case True
  then obtain g where g: "CLOUDFLARE_AI_GATEWAY (env this) = Some g" "g \<noteq> []"
    by (auto simp: truthy_def split: option.splits)
  from ensureAIGateway_shape[OF g, of api w] show ?thesis by blast
qed

text \<open>One gateway step: at most one creation call, and none when its lookup succeeds.\<close>

lemma ensureAIGateway_creations:
  "creations (since w (snd (snd (ensureAIGateway api this w)))) \<le> 1"
  "GatewayGet tok g \<in> set (since w (snd (snd (ensureAIGateway api this w))))
     \<Longrightarrow> aiGateway_get api tok g = Inr ()
     \<Longrightarrow> fst (ensureAIGateway api this w) = Inr ()
         \<and> creations (since w (snd (snd (ensureAIGateway api this w)))) = 0
         \<and> last (since w (snd (snd (ensureAIGateway api this w))))
             = Log (''AI Gateway '' @ g @ '' already exists'')"
proof -
  let ?new = "since w (snd (snd (ensureAIGateway api this w)))"
  show "creations ?new \<le> 1"
  proof (cases "truthy (CLOUDFLARE_AI_GATEWAY (env this))")
    case False
    then show ?thesis by (simp add: ensureAIGateway_unconfigured since_def creations_def)
  next
    case True
    then obtain g where g: "CLOUDFLARE_AI_GATEWAY (env this) = Some g" "g \<noteq> []"
      by (auto simp: truthy_def split: option.splits)
    from ensureAIGateway_shape[OF g, of api w] show ?thesis
    proof (elim exE conjE)
      fix evs sdk tail
      assume s: "list_all token_event evs"
        "trace (snd (snd (ensureAIGateway api this w)))
           = trace w @ Log (''Checking AI Gateway: '' @ g) # evs @ GatewayGet sdk g # tail"
        "gateway_tail api g (token_result api this w) sdk tail"
      have "?new = Log (''Checking AI Gateway: '' @ g) # evs @ GatewayGet sdk g # tail"
        using s(2) by (simp add: since_def)
      then show ?thesis
        using gateway_tail_creations(1)[OF s(3)] token_no_creations[OF s(1)]
        by (simp add: creations_def)
    qed
  qed
  assume a: "GatewayGet tok g \<in> set ?new" "aiGateway_get api tok g = Inr ()"
  show "fst (ensureAIGateway api this w) = Inr () \<and> creations ?new = 0
         \<and> last ?new = Log (''AI Gateway '' @ g @ '' already exists'')"
  proof (cases "truthy (CLOUDFLARE_AI_GATEWAY (env this))")
    case False
    with a(1) show ?thesis by (simp add: ensureAIGateway_unconfigured since_def)
  next
    case True
    then obtain g' where g: "CLOUDFLARE_AI_GATEWAY (env this) = Some g'" "g' \<noteq> []"
      by (auto simp: truthy_def split: option.splits)
    from ensureAIGateway_shape[OF g, of api w] show ?thesis
    proof (elim exE conjE)
      fix evs sdk tail
      assume s: "list_all token_event evs"
        "fst (ensureAIGateway api this w) = Inr ()"
        "trace (snd (snd (ensureAIGateway api this w)))
           = trace w @ Log (''Checking AI Gateway: '' @ g') # evs @ GatewayGet sdk g' # tail"
        "gateway_tail api g' (token_result api this w) sdk tail"
      have n: "?new = Log (''Checking AI Gateway: '' @ g') # evs @ GatewayGet sdk g' # tail"
        using s(3) by (simp add: since_def)
      have "tok = sdk \<and> g = g'"
        using a(1) token_no_gateway_get[OF s(1)] gateway_tail_creations(3)[OF s(4)]
        unfolding n by auto
      with a(2) have "aiGateway_get api sdk g' = Inr ()" by simp
      from gateway_tail_creations(2)[OF s(4) this] have t: "tail = [Log (''AI Gateway '' @ g' @ '' already exists'')]" .
      show ?thesis
        using s(2) token_no_creations[OF s(1)] \<open>tok = sdk \<and> g = g'\<close>
        unfolding n t by (simp add: creations_def)
    qed
  qed
qed

lemma ensureAIGateway_second_run:
  assumes "\<forall>tok g. GatewayGet tok g \<in> set (since w (snd (snd (ensureAIGateway api this w))))
               \<longrightarrow> aiGateway_get api tok g = Inr ()"
  shows "creations (since w (snd (snd (ensureAIGateway api this w)))) = 0"
proof (cases "truthy (CLOUDFLARE_AI_GATEWAY (env this))")
  case False
  then show ?thesis by (simp add: ensureAIGateway_unconfigured since_def creations_def)
next
  case True
  then obtain g where g: "CLOUDFLARE_AI_GATEWAY (env this) = Some g" "g \<noteq> []"
    by (auto simp: truthy_def split: option.splits)
  from ensureAIGateway_shape[OF g, of api w]
  obtain evs sdk tail where "trace (snd (snd (ensureAIGateway api this w)))
         = trace w @ Log (''Checking AI Gateway: '' @ g) # evs @ GatewayGet sdk g # tail"
    by blast
  then have m: "GatewayGet sdk g \<in> set (since w (snd (snd (ensureAIGateway api this w))))"
    by (simp add: since_def)
  with assms have "aiGateway_get api sdk g = Inr ()" by blast
  from ensureAIGateway_creations(2)[OF m this] show ?thesis by simp
qed

text \<open>
  Claim C5. When the lookup of the namespace succeeds, the namespace step succeeds, calls
  no creation and leaves the files alone; the same holds for the gateway step when the
  lookup of the gateway succeeds. So, for each of the two resources, when the step is run
  again on the world the first run left and its lookup succeeds there, the second run calls
  no creation, and the two runs together call at most one.
\<close>

theorem ensure_existing_resource_is_noop:
  "(\<forall>n. NamespaceGet n \<in> set (since w (snd (ensureDispatchNamespace api this w)))
          \<and> namespaces_get api n = Inr ()
       \<longrightarrow> fst (ensureDispatchNamespace api this w) = Inr ()
         \<and> \<not> list_ex is_create (since w (snd (ensureDispatchNamespace api this w)))
         \<and> files (snd (ensureDispatchNamespace api this w)) = files w)
   \<and> (\<forall>tok g. GatewayGet tok g \<in> set (since w (snd (snd (ensureAIGateway api this w))))
          \<and> aiGateway_get api tok g = Inr ()
       \<longrightarrow> fst (ensureAIGateway api this w) = Inr ()
         \<and> \<not> list_ex is_create (since w (snd (snd (ensureAIGateway api this w))))
         \<and> files (snd (snd (ensureAIGateway api this w))) = files w)
   \<and> ((\<forall>n. NamespaceGet n \<in> set (since (snd (ensureDispatchNamespace api this w))
                                     (snd (ensureDispatchNamespace api2 this (snd (ensureDispatchNamespace api this w)))))
            \<longrightarrow> namespaces_get api2 n = Inr ())
       \<longrightarrow> creations (since (snd (ensureDispatchNamespace api this w))
                             (snd (ensureDispatchNamespace api2 this (snd (ensureDispatchNamespace api this w))))) = 0
         \<and> creations (since w (snd (ensureDispatchNamespace api2 this (snd (ensureDispatchNamespace api this w))))) \<le> 1)
   \<and> ((\<forall>tok g. GatewayGet tok g \<in> set (since (snd (snd (ensureAIGateway api this w)))
                                     (snd (snd (ensureAIGateway api2 this (snd (snd (ensureAIGateway api this w)))))))
            \<longrightarrow> aiGateway_get api2 tok g = Inr ())
       \<longrightarrow> creations (since (snd (snd (ensureAIGateway api this w)))
                             (snd (snd (ensureAIGateway api2 this (snd (snd (ensureAIGateway api this w))))))) = 0
         \<and> creations (since w (snd (snd (ensureAIGateway api2 this (snd (snd (ensureAIGateway api this w))))))) \<le> 1)"
proof (intro conjI allI impI)
  fix n
  assume a: "NamespaceGet n \<in> set (since w (snd (ensureDispatchNamespace api this w)))
          \<and> namespaces_get api n = Inr ()"
  from ensureDispatchNamespace_creations(2)[of n w api this] a
  show "fst (ensureDispatchNamespace api this w) = Inr ()"
    and "\<not> list_ex is_create (since w (snd (ensureDispatchNamespace api this w)))"
    by simp_all
  show "files (snd (ensureDispatchNamespace api this w)) = files w"
    using ensureDispatchNamespace_shape by blast
next
  fix tok g
  assume a: "GatewayGet tok g \<in> set (since w (snd (snd (ensureAIGateway api this w))))
          \<and> aiGateway_get api tok g = Inr ()"
  from ensureAIGateway_creations(2)[of tok g w api this] a
  show "fst (ensureAIGateway api this w) = Inr ()"
    and "\<not> list_ex is_create (since w (snd (snd (ensureAIGateway api this w))))"
    by (simp_all add: creations_def list_ex_iff filter_empty_conv)
  show "files (snd (snd (ensureAIGateway api this w))) = files w"
  proof (cases "truthy (CLOUDFLARE_AI_GATEWAY (env this))")
    case False
    then show ?thesis by (simp add: ensureAIGateway_unconfigured)
  next
    case True
    then obtain g where g: "CLOUDFLARE_AI_GATEWAY (env this) = Some g" "g \<noteq> []"
      by (auto simp: truthy_def split: option.splits)
    from ensureAIGateway_shape[OF g, of api w] show ?thesis by blast
  qed
next
  let ?w1 = "snd (ensureDispatchNamespace api this w)"
  let ?w2 = "snd (ensureDispatchNamespace api2 this ?w1)"
  assume a: "\<forall>n. NamespaceGet n \<in> set (since ?w1 ?w2) \<longrightarrow> namespaces_get api2 n = Inr ()"
  from ensureDispatchNamespace_second_run[OF a]
  show z: "creations (since ?w1 ?w2) = 0" .
  obtain e1 e2 where "trace ?w1 = trace w @ e1" "trace ?w2 = trace ?w1 @ e2"
    using ensureDispatchNamespace_extends by meson
  from since_trans[OF this] have "since w ?w2 = since w ?w1 @ since ?w1 ?w2" .
  then show "creations (since w ?w2) \<le> 1"
    using z ensureDispatchNamespace_creations(1)[of w api this] by (simp add: creations_append)
next
  let ?w1 = "snd (snd (ensureAIGateway api this w))"
  let ?w2 = "snd (snd (ensureAIGateway api2 this ?w1))"
  assume a: "\<forall>tok g. GatewayGet tok g \<in> set (since ?w1 ?w2) \<longrightarrow> aiGateway_get api2 tok g = Inr ()"
  from ensureAIGateway_second_run[OF a]
  show z: "creations (since ?w1 ?w2) = 0" .
  obtain e1 e2 where "trace ?w1 = trace w @ e1" "trace ?w2 = trace ?w1 @ e2"
    using ensureAIGateway_extends by meson
  from since_trans[OF this] have "since w ?w2 = since w ?w1 @ since ?w1 ?w2" .
  then show "creations (since w ?w2) \<le> 1"
    using z ensureAIGateway_creations(1)[of w api this] by (simp add: creations_append)
qed

lemmas run_defs = ensureDispatchNamespace_def api_present_def api_absent_def manager0_def
        config0_def env0_def empty_world_def rethrown_def emit_def Let_def since_def creations_def

theorem ensure_existing_resource_is_noop_witness:
  "NamespaceGet ''orange-build-default-namespace''
     \<in> set (since empty_world (snd (ensureDispatchNamespace api_present manager0 empty_world)))
   \<and> namespaces_get api_present ''orange-build-default-namespace'' = Inr ()
   \<and> fst (ensureDispatchNamespace api_present manager0 empty_world) = Inr ()
   \<and> \<not> list_ex is_create (since empty_world (snd (ensureDispatchNamespace api_present manager0 empty_world)))
   \<and> creations (since empty_world (snd (ensureDispatchNamespace api_absent manager0 empty_world))) = 1
   \<and> creations (since empty_world
        (snd (ensureDispatchNamespace api_present manager0
               (snd (ensureDispatchNamespace api_absent manager0 empty_world))))) \<le> 1"
proof -
  have h1: "NamespaceGet ''orange-build-default-namespace''
     \<in> set (since empty_world (snd (ensureDispatchNamespace api_present manager0 empty_world)))
     \<and> namespaces_get api_present ''orange-build-default-namespace'' = Inr ()"
    by (simp add: run_defs)
  have h2: "\<forall>n. NamespaceGet n \<in> set (since (snd (ensureDispatchNamespace api_absent manager0 empty_world))
                                     (snd (ensureDispatchNamespace api_present manager0
                                        (snd (ensureDispatchNamespace api_absent manager0 empty_world)))))
            \<longrightarrow> namespaces_get api_present n = Inr ()"
    by (simp add: api_present_def)
  have first: "creations (since empty_world (snd (ensureDispatchNamespace api_absent manager0 empty_world))) = 1"
    by (simp add: run_defs indexOf_def)
  from ensure_existing_resource_is_noop[where w=empty_world and api=api_present and this=manager0]
       ensure_existing_resource_is_noop[where w=empty_world and api=api_absent and this=manager0
                                          and ?api2.0=api_present]
       h1 h2 first
  show ?thesis by blast
qed

lemma usable_token_iff:
  "usable_token c = Some t \<longleftrightarrow> c = Some t \<and> t \<noteq> [] \<and> t \<noteq> placeholder_token"
  by (auto simp: usable_token_def split: option.splits)

lemma is_console_not_issue: "is_console e \<Longrightarrow> \<not> is_issue e"
  by (cases e) simp_all

lemma gateway_tail_no_issue:
  assumes "gateway_tail api g tok sdk tail"
  shows "\<not> list_ex is_issue tail"
  using gateway_tail_console_or_create[OF assms]
  by (auto simp: list_ex_iff dest: is_console_not_issue)

text \<open>
  Claim C8. A configured gateway token that is not empty and not the placeholder is
  returned as it is: no token is requested in the gateway step, and the lookup of the
  gateway is made with that token. When no usable token is configured and the request for
  one fails, \<open>ensureAIGatewayToken\<close> returns \<open>null\<close> after a warning, the gateway step does
  not throw, and when the gateway is not found (and its name is within the limit) the
  creation is called with authentication disabled.
\<close>

theorem gateway_token_reused_and_issuance_recoverable:
  "(\<forall>t. CLOUDFLARE_AI_GATEWAY_TOKEN (env this) = Some t \<and> t \<noteq> [] \<and> t \<noteq> placeholder_token \<longrightarrow>
      ensureAIGatewayToken api this w =
        (Inr (Some t), this\<lparr>aiGatewayCloudflare := Some t\<rparr>,
         emit (Log ''AI Gateway token already configured'') w)
      \<and> \<not> list_ex is_issue (since w (snd (snd (ensureAIGateway api this w))))
      \<and> (\<forall>g. CLOUDFLARE_AI_GATEWAY (env this) = Some g \<and> g \<noteq> [] \<longrightarrow>
            GatewayGet t g \<in> set (since w (snd (snd (ensureAIGateway api this w))))))
   \<and> (\<forall>e. usable_token (CLOUDFLARE_AI_GATEWAY_TOKEN (env this)) = None
          \<and> fst (issueAIGatewayToken api this w) = Inl e \<longrightarrow>
        fst (ensureAIGatewayToken api this w) = Inr None
        \<and> list_ex is_warn (since w (snd (snd (ensureAIGatewayToken api this w))))
        \<and> fst (ensureAIGateway api this w) = Inr ()
        \<and> (\<forall>g err. CLOUDFLARE_AI_GATEWAY (env this) = Some g \<and> g \<noteq> [] \<and> length g \<le> 64
               \<and> aiGateway_get api (getAIGatewaySDK this) g = Inl err \<and> \<not> not_a_404 err \<longrightarrow>
             GatewayCreate (getAIGatewaySDK this) g False
               \<in> set (since w (snd (snd (ensureAIGateway api this w))))
             \<and> list_ex is_warn (since w (snd (snd (ensureAIGateway api this w))))))"
proof (intro conjI allI impI)
  fix t
  assume a: "CLOUDFLARE_AI_GATEWAY_TOKEN (env this) = Some t \<and> t \<noteq> [] \<and> t \<noteq> placeholder_token"
  then have u: "usable_token (CLOUDFLARE_AI_GATEWAY_TOKEN (env this)) = Some t"
    by (simp add: usable_token_iff)
  then have tr: "token_result api this w = Some t"
    by (simp add: token_result_def)
  show "ensureAIGatewayToken api this w =
        (Inr (Some t), this\<lparr>aiGatewayCloudflare := Some t\<rparr>,
         emit (Log ''AI Gateway token already configured'') w)"
    by (rule ensureAIGatewayToken_reuse[OF u])
  show "\<not> list_ex is_issue (since w (snd (snd (ensureAIGateway api this w))))"
  proof (cases "truthy (CLOUDFLARE_AI_GATEWAY (env this))")
    case False
    then show ?thesis by (simp add: ensureAIGateway_unconfigured since_def)
  next
    case True
    then obtain g where g: "CLOUDFLARE_AI_GATEWAY (env this) = Some g" "g \<noteq> []"
      by (auto simp: truthy_def split: option.splits)
    from ensureAIGateway_shape[OF g, of api w] show ?thesis
    proof (elim exE conjE)
      fix evs sdk tail
      assume s: "usable_token (CLOUDFLARE_AI_GATEWAY_TOKEN (env this)) \<noteq> None \<longrightarrow> \<not> list_ex is_issue evs"
        "trace (snd (snd (ensureAIGateway api this w)))
           = trace w @ Log (''Checking AI Gateway: '' @ g) # evs @ GatewayGet sdk g # tail"
        "gateway_tail api g (token_result api this w) sdk tail"
      have "since w (snd (snd (ensureAIGateway api this w)))
              = Log (''Checking AI Gateway: '' @ g) # evs @ GatewayGet sdk g # tail"
        using s(2) by (simp add: since_def)
      then show ?thesis
        using s(1) u gateway_tail_no_issue[OF s(3)] by simp
    qed
  qed
  fix g
  assume g: "CLOUDFLARE_AI_GATEWAY (env this) = Some g \<and> g \<noteq> []"
  then have g': "CLOUDFLARE_AI_GATEWAY (env this) = Some g" "g \<noteq> []" by simp_all
  from ensureAIGateway_shape[OF g', of api w] tr
  show "GatewayGet t g \<in> set (since w (snd (snd (ensureAIGateway api this w))))"
    by (auto simp: since_def)
next
  fix e
  assume a: "usable_token (CLOUDFLARE_AI_GATEWAY_TOKEN (env this)) = None
          \<and> fst (issueAIGatewayToken api this w) = Inl e"
  then have tr: "token_result api this w = None"
    by (simp add: token_result_def)
  show r: "fst (ensureAIGatewayToken api this w) = Inr None"
    using ensureAIGatewayToken_result[of api this w] tr by simp
  obtain r0 this' w' where t: "ensureAIGatewayToken api this w = (r0, this', w')"
    by (cases "ensureAIGatewayToken api this w") auto
  from ensureAIGatewayToken_shape[OF t] r t
  show "list_ex is_warn (since w (snd (snd (ensureAIGatewayToken api this w))))"
    by (auto simp: since_def)
  show "fst (ensureAIGateway api this w) = Inr ()"
  proof (cases "truthy (CLOUDFLARE_AI_GATEWAY (env this))")
    case False
    then show ?thesis by (simp add: ensureAIGateway_unconfigured)
  next
    case True
    then obtain g where g: "CLOUDFLARE_AI_GATEWAY (env this) = Some g" "g \<noteq> []"
      by (auto simp: truthy_def split: option.splits)
    from ensureAIGateway_shape[OF g, of api w] show ?thesis by blast
  qed
  fix g err
  assume b: "CLOUDFLARE_AI_GATEWAY (env this) = Some g \<and> g \<noteq> [] \<and> length g \<le> 64
               \<and> aiGateway_get api (getAIGatewaySDK this) g = Inl err \<and> \<not> not_a_404 err"
  then have g: "CLOUDFLARE_AI_GATEWAY (env this) = Some g" "g \<noteq> []" by simp_all
  from ensureAIGateway_shape[OF g, of api w]
  show "GatewayCreate (getAIGatewaySDK this) g False
               \<in> set (since w (snd (snd (ensureAIGateway api this w))))"
    and "list_ex is_warn (since w (snd (snd (ensureAIGateway api this w))))"
    using tr b by (auto simp: since_def gateway_tail_def list_ex_iff)
qed

theorem gateway_token_reused_and_issuance_recoverable_witness:
  "CLOUDFLARE_AI_GATEWAY_TOKEN (env manager_gateway_token) = Some ''gateway-token''
   \<and> ''gateway-token'' \<noteq> placeholder_token
   \<and> \<not> list_ex is_issue (since empty_world (snd (snd (ensureAIGateway api_absent manager_gateway_token empty_world))))
   \<and> GatewayGet ''gateway-token'' ''acme-gw''
        \<in> set (since empty_world (snd (snd (ensureAIGateway api_absent manager_gateway_token empty_world))))
   \<and> usable_token (CLOUDFLARE_AI_GATEWAY_TOKEN (env manager_gateway)) = None
   \<and> fst (issueAIGatewayToken api_absent manager_gateway empty_world)
        = Inl (new_Error ''API token creation failed: Unauthorized'')
   \<and> fst (ensureAIGatewayToken api_absent manager_gateway empty_world) = Inr None
   \<and> fst (ensureAIGateway api_absent manager_gateway empty_world) = Inr ()
   \<and> GatewayCreate ''secret'' ''acme-gw'' False
        \<in> set (since empty_world (snd (snd (ensureAIGateway api_absent manager_gateway empty_world))))"
proof -
  have a1: "CLOUDFLARE_AI_GATEWAY_TOKEN (env manager_gateway_token) = Some ''gateway-token''
            \<and> ''gateway-token'' \<noteq> [] \<and> ''gateway-token'' \<noteq> placeholder_token"
    by (simp add: manager_gateway_token_def placeholder_token_def)
  have a2: "CLOUDFLARE_AI_GATEWAY (env manager_gateway_token) = Some ''acme-gw'' \<and> ''acme-gw'' \<noteq> []"
    by (simp add: manager_gateway_token_def)
  have b1: "usable_token (CLOUDFLARE_AI_GATEWAY_TOKEN (env manager_gateway)) = None
            \<and> fst (issueAIGatewayToken api_absent manager_gateway empty_world)
                = Inl (new_Error ''API token creation failed: Unauthorized'')"
    by (simp add: manager_gateway_def manager0_def env0_def usable_token_def issueAIGatewayToken_def
          api_absent_def Let_def truthy_def)
  have b2: "CLOUDFLARE_AI_GATEWAY (env manager_gateway) = Some ''acme-gw'' \<and> ''acme-gw'' \<noteq> []
            \<and> length ''acme-gw'' \<le> 64
            \<and> aiGateway_get api_absent (getAIGatewaySDK manager_gateway) ''acme-gw''
                 = Inl (Thrown (Some 404) (Some ''Not Found''))
            \<and> \<not> not_a_404 (Thrown (Some 404) (Some ''Not Found''))"
    by (simp add: manager_gateway_def api_absent_def not_a_404_def)
  have sdk: "getAIGatewaySDK manager_gateway = ''secret''"
    by (simp add: getAIGatewaySDK_def manager_gateway_def manager0_def env0_def)
  note t1 = gateway_token_reused_and_issuance_recoverable
              [where this=manager_gateway_token and api=api_absent and w=empty_world]
  note t2 = gateway_token_reused_and_issuance_recoverable
              [where this=manager_gateway and api=api_absent and w=empty_world]
  from t1 a1 a2
  have r1: "\<not> list_ex is_issue (since empty_world (snd (snd (ensureAIGateway api_absent manager_gateway_token empty_world))))"
    and r2: "GatewayGet ''gateway-token'' ''acme-gw''
        \<in> set (since empty_world (snd (snd (ensureAIGateway api_absent manager_gateway_token empty_world))))"
    by blast+
  from t2 b1 b2
  have r3: "fst (ensureAIGatewayToken api_absent manager_gateway empty_world) = Inr None"
    and r4: "fst (ensureAIGateway api_absent manager_gateway empty_world) = Inr ()"
    and r5: "GatewayCreate (getAIGatewaySDK manager_gateway) ''acme-gw'' False
        \<in> set (since empty_world (snd (snd (ensureAIGateway api_absent manager_gateway empty_world))))"
    by blast+
  from a1 b1 r1 r2 r3 r4 r5 sdk show ?thesis by simp
qed

text \<open>
  Claim C10. When \<open>MAX_SANDBOX_INSTANCES\<close> is unset or empty, or \<open>parseInt\<close> finds no number in it,
  or the number is not positive, \<open>updateContainerConfiguration\<close> returns without an error, the
  files are what they were, and all it adds to the trace is one message: it neither reads
  nor writes a file.
\<close>

theorem updateContainerConfiguration_skips_invalid_override:
  assumes "invalid_override (MAX_SANDBOX_INSTANCES (env this))"
  shows "fst (updateContainerConfiguration lib h this w) = Inr ()
       \<and> files (snd (updateContainerConfiguration lib h this w)) = files w
       \<and> length (since w (snd (updateContainerConfiguration lib h this w))) = 1
       \<and> list_all is_console (since w (snd (updateContainerConfiguration lib h this w)))
       \<and> \<not> list_ex is_file_access (since w (snd (updateContainerConfiguration lib h this w)))"
  using assms
  by (auto simp: invalid_override_def updateContainerConfiguration_def since_def
           split: option.splits)

lemma parseInt_examples:
  "parseInt ''abc'' = None" "parseInt ''-3'' = Some (- 3)" "parseInt ''0'' = Some 0"
  "parseInt ''25'' = Some 25" "parseInt '' 42px'' = Some 42" "parseInt [CHR 0xA0, CHR ''7''] = Some 7"
  by (simp_all add: parseInt_def isWhiteSpace_def isDigit_def digits_val_def digit_val_def Let_def)

lemma deployTemplates_never_throws: "fst (deployTemplates h this w) = Inr ()"
  by (simp add: deployTemplates_def split: prod.splits sum.splits)

lemma updateSecrets_never_throws: "fst (updateSecrets h penv w) = Inr ()"
  by (simp add: updateSecrets_def split: prod.splits sum.splits)

lemma deployTemplates_failure_warns:
  assumes "fst (deployTemplates_body h this
                  (emit (Log (''Setting up templates from: '' @ TEMPLATES_REPOSITORY (env this))) w)) = Inl e"
  shows "last (trace (snd (deployTemplates h this w))) = Warn (describe e)"
proof -
  define w0 where "w0 = emit (Log (''Setting up templates from: '' @ TEMPLATES_REPOSITORY (env this))) w"
  obtain r w' where b: "deployTemplates_body h this w0 = (r, w')"
    by (cases "deployTemplates_body h this w0") auto
  with assms have "r = Inl e" by (simp add: w0_def)
  with b show ?thesis
    unfolding deployTemplates_def w0_def[symmetric] by simp
qed

lemma updateSecrets_failure_warns:
  assumes "fst (updateSecrets_body h penv (emit (Log ''Updating production secrets...'') w)) = Inl e"
  shows "trace (snd (updateSecrets h penv w)) =
           trace (snd (updateSecrets_body h penv (emit (Log ''Updating production secrets...'') w)))
           @ [Warn (''Could not update secrets: '' @ exn_message e),
              Warn ''You may need to update secrets manually if required'']"
proof -
  define w0 where "w0 = emit (Log ''Updating production secrets...'') w"
  obtain r w' where b: "updateSecrets_body h penv w0 = (r, w')"
    by (cases "updateSecrets_body h penv w0") auto
  with assms have "r = Inl e" by (simp add: w0_def)
  with b show ?thesis
    unfolding updateSecrets_def w0_def[symmetric] by simp
qed

text \<open>The two ways secret synchronization fails inside: the secrets file cannot be
  generated, or the upload fails.\<close>

lemma updateSecrets_body_generation_fails:
  assumes "files w prodVarsPath = None" "unwritable h prodVarsPath"
  shows "fst (updateSecrets_body h penv w)
           = Inl (DeploymentError ''Failed to create .prod.vars file'' (Some (io_error h prodVarsPath)))"
  using assms
  by (simp add: updateSecrets_body_def existsSync_def createProdVarsFile_def writeFileSync_def bind_w_def)

lemma updateSecrets_body_upload_fails:
  assumes "files w prodVarsPath \<noteq> None" "exec h PROJECT_ROOT secrets_command (files w) = Inl e"
  shows "fst (updateSecrets_body h penv w) = Inl (Raised e)"
  using assms
  by (auto simp: updateSecrets_body_def existsSync_def bind_w_def execSync_def)

lemma bind_w_Inr: "fst r = Inr a \<Longrightarrow> bind_w r f = f a (snd r)"
  by (cases r) (simp add: bind_w_def)

lemma bind_w_Inl: "fst r = Inl e \<Longrightarrow> bind_w r f = (Inl e, snd r)"
  by (cases r) (simp add: bind_w_def)

lemma deploy_steps_unfold:
  "deploy_steps lib h this penv
      (emit (Log ''Cloudflare Orange Build - Automated Deployment Starting...'') w) =
   (case fst (updateContainerConfiguration lib h this (world_at_step6 w)) of
      Inl e \<Rightarrow> (Inl e, snd (updateContainerConfiguration lib h this (world_at_step6 w)))
    | Inr _ \<Rightarrow>
       (case fst (wranglerDeploy h (world_at_step7 lib h this w)) of
          Inl e \<Rightarrow> (Inl e, snd (wranglerDeploy h (world_at_step7 lib h this w)))
        | Inr _ \<Rightarrow>
            (Inr (), emit (Log ''Your Cloudflare Orange Build platform is now live!'')
                 (emit (Log ''Complete deployment finished successfully'')
                   (snd (updateSecrets h penv (world_at_step8 lib h this w)))))))"
proof (cases "fst (updateContainerConfiguration lib h this (world_at_step6 w))")
  case (Inl e)
  then show ?thesis
    unfolding deploy_steps_def world_at_step6_def[symmetric] by (simp add: bind_w_Inl)
next
  case c: (Inr u)
  show ?thesis
  proof (cases "fst (wranglerDeploy h (world_at_step7 lib h this w))")
    case (Inl e)
    with c show ?thesis
      unfolding deploy_steps_def world_at_step6_def[symmetric]
      by (simp add: bind_w_Inr bind_w_Inl world_at_step7_def[symmetric])
  next
    case (Inr v)
    with c updateSecrets_never_throws[of h penv "world_at_step8 lib h this w"] show ?thesis
      unfolding deploy_steps_def world_at_step6_def[symmetric]
      by (simp add: bind_w_Inr world_at_step7_def[symmetric] world_at_step8_def[symmetric])
  qed
qed

lemma deploy_status:
  "fst (deploy lib h this penv w) =
     (if fst (updateContainerConfiguration lib h this (world_at_step6 w)) = Inr ()
         \<and> fst (wranglerDeploy h (world_at_step7 lib h this w)) = Inr ()
      then 0 else 1)"
  by (simp add: deploy_def deploy_steps_unfold split: sum.splits)

text \<open>
  Claim C9. \<open>deployTemplates\<close> and \<open>updateSecrets\<close> never throw, so whatever step follows
  them runs; when their \<open>try\<close> block fails, the last thing they do is log a warning. The
  block of \<open>updateSecrets\<close> fails when the secrets file is missing and cannot be written,
  and when the upload fails. The exit status of a run is 0 whenever the configuration step
  and the deploy step succeed, whatever secret synchronization does.
\<close>

theorem non_blocking_steps_never_fail_the_run:
  "fst (deployTemplates h this w) = Inr ()
   \<and> bind_w (deployTemplates h this w) next_step = next_step () (snd (deployTemplates h this w))
   \<and> (\<forall>e. fst (deployTemplates_body h this
                  (emit (Log (''Setting up templates from: '' @ TEMPLATES_REPOSITORY (env this))) w)) = Inl e
          \<longrightarrow> last (trace (snd (deployTemplates h this w))) = Warn (describe e))
   \<and> fst (updateSecrets h penv w) = Inr ()
   \<and> bind_w (updateSecrets h penv w) next_step = next_step () (snd (updateSecrets h penv w))
   \<and> (\<forall>e. fst (updateSecrets_body h penv (emit (Log ''Updating production secrets...'') w)) = Inl e
          \<longrightarrow> last (trace (snd (updateSecrets h penv w)))
                = Warn ''You may need to update secrets manually if required'')
   \<and> (files w prodVarsPath = None \<and> unwritable h prodVarsPath
          \<longrightarrow> (\<exists>e. fst (updateSecrets_body h penv (emit (Log ''Updating production secrets...'') w)) = Inl e))
   \<and> (\<forall>e. files w prodVarsPath \<noteq> None \<and> exec h PROJECT_ROOT secrets_command (files w) = Inl e
          \<longrightarrow> fst (updateSecrets_body h penv (emit (Log ''Updating production secrets...'') w)) = Inl (Raised e))
   \<and> (fst (updateContainerConfiguration lib h this (world_at_step6 w)) = Inr ()
        \<and> fst (wranglerDeploy h (world_at_step7 lib h this w)) = Inr ()
          \<longrightarrow> fst (deploy lib h this penv w) = 0
            \<and> last (trace (snd (deploy lib h this penv w)))
                = Log ''Your Cloudflare Orange Build platform is now live!'')"
proof (intro conjI allI impI)
  show "fst (deployTemplates h this w) = Inr ()" by (rule deployTemplates_never_throws)
  then show "bind_w (deployTemplates h this w) next_step = next_step () (snd (deployTemplates h this w))"
    by (cases "deployTemplates h this w") (simp add: bind_w_def)
  show "fst (updateSecrets h penv w) = Inr ()" by (rule updateSecrets_never_throws)
  then show "bind_w (updateSecrets h penv w) next_step = next_step () (snd (updateSecrets h penv w))"
    by (cases "updateSecrets h penv w") (simp add: bind_w_def)
next
  fix e
  assume "fst (deployTemplates_body h this
                  (emit (Log (''Setting up templates from: '' @ TEMPLATES_REPOSITORY (env this))) w)) = Inl e"
  then show "last (trace (snd (deployTemplates h this w))) = Warn (describe e)"
    by (rule deployTemplates_failure_warns)
next
  fix e
  assume "fst (updateSecrets_body h penv (emit (Log ''Updating production secrets...'') w)) = Inl e"
  from updateSecrets_failure_warns[OF this]
  show "last (trace (snd (updateSecrets h penv w)))
                = Warn ''You may need to update secrets manually if required''"
    by simp
next
  assume "files w prodVarsPath = None \<and> unwritable h prodVarsPath"
  then show "\<exists>e. fst (updateSecrets_body h penv (emit (Log ''Updating production secrets...'') w)) = Inl e"
    using updateSecrets_body_generation_fails[of "emit (Log ''Updating production secrets...'') w" h penv]
    by simp
next
  fix e
  assume "files w prodVarsPath \<noteq> None \<and> exec h PROJECT_ROOT secrets_command (files w) = Inl e"
  then show "fst (updateSecrets_body h penv (emit (Log ''Updating production secrets...'') w)) = Inl (Raised e)"
    using updateSecrets_body_upload_fails[of "emit (Log ''Updating production secrets...'') w" h e penv]
    by simp
next
  assume a: "fst (updateContainerConfiguration lib h this (world_at_step6 w)) = Inr ()
        \<and> fst (wranglerDeploy h (world_at_step7 lib h this w)) = Inr ()"
  then show "fst (deploy lib h this penv w) = 0" by (simp add: deploy_status)
  from a show "last (trace (snd (deploy lib h this penv w)))
                = Log ''Your Cloudflare Orange Build platform is now live!''"
    by (simp add: deploy_def deploy_steps_unfold)
qed

lemma guarded_split:
  "guarded P g evs \<Longrightarrow> \<not> P g \<Longrightarrow> evs = pre @ e # post \<Longrightarrow> P e \<Longrightarrow> g \<in> set pre"
proof (induction evs arbitrary: pre)
  case Nil
  then show ?case by simp
next
  case (Cons x xs)
  show ?case
  proof (cases pre)
    case Nil
    with Cons.prems show ?thesis by auto
  next
    case (Cons p ps)
    with Cons.prems Cons.IH[of ps] show ?thesis by auto
  qed
qed

lemma guarded_append:
  "list_all (\<lambda>e. \<not> P e) a \<Longrightarrow> guarded P g b \<Longrightarrow> guarded P g (a @ b)"
  by (induction a) auto

lemma guarded_none: "list_all (\<lambda>e. \<not> P e) a \<Longrightarrow> guarded P g a"
  by (induction a) auto

lemma cfg_event_not: "cfg_event e \<Longrightarrow> \<not> is_build e \<and> \<not> is_secret_sync e"
  by (cases e) (auto simp: wranglerPath_def prodVarsPath_def path_join_def)

lemma readFileSync_trace:
  "trace (snd (readFileSync h p w)) = trace w @ [ReadFile p] \<and> files (snd (readFileSync h p w)) = files w"
  by (simp add: readFileSync_def split: option.splits fs_node.splits)

lemma writeFileSync_trace:
  "trace (snd (writeFileSync h p c w)) = trace w @ [WriteFile p c]"
  by (simp add: writeFileSync_def)

lemma updateContainerConfiguration_body_events:
  "\<exists>evs. trace (snd (updateContainerConfiguration_body lib h n w)) = trace w @ evs
         \<and> list_all cfg_event evs"
proof (cases "readFileSync h wranglerPath w")
  case (Pair r w1)
  then have t1: "trace w1 = trace w @ [ReadFile wranglerPath]"
    using readFileSync_trace[of h wranglerPath w] by simp
  show ?thesis
  proof (cases r)
    case (Inl e)
    with Pair t1 show ?thesis by (simp add: updateContainerConfiguration_body_def bind_w_def)
  next
    case (Inr content)
    with Pair t1 show ?thesis
      by (auto simp: updateContainerConfiguration_body_def bind_w_def writeFileSync_def
               split: sum.splits option.splits jvalue.splits)
  qed
qed

lemma updateContainerConfiguration_valid:
  assumes "MAX_SANDBOX_INSTANCES (env this) = Some s" "s \<noteq> []" "parseInt s = Some n" "0 < n"
  shows "updateContainerConfiguration lib h this w =
          (case updateContainerConfiguration_body lib h (nat n)
                  (emit (Log (''Updating container configuration: MAX_SANDBOX_INSTANCES='' @
                              number_text h (nat n))) w) of
             (Inr _, w') \<Rightarrow> (Inr (), w')
           | (Inl error, w') \<Rightarrow>
               (Inl (DeploymentError ''Failed to update container configuration'' (Some error)), w'))"
  using assms by (simp add: updateContainerConfiguration_def)

lemma updateContainerConfiguration_events:
  "\<exists>evs. trace (snd (updateContainerConfiguration lib h this w)) = trace w @ evs
         \<and> list_all cfg_event evs"
proof (cases "invalid_override (MAX_SANDBOX_INSTANCES (env this))")
  case True
  then show ?thesis
    by (auto simp: invalid_override_def updateContainerConfiguration_def split: option.splits)
next
  case False
  then obtain s n where s: "MAX_SANDBOX_INSTANCES (env this) = Some s" "s \<noteq> []"
      "parseInt s = Some n" "0 < n"
    by (auto simp: invalid_override_def split: option.splits)
  define w0 where "w0 = emit (Log (''Updating container configuration: MAX_SANDBOX_INSTANCES='' @
                                      number_text h (nat n))) w"
  from updateContainerConfiguration_body_events[of lib h "nat n" w0]
  obtain evs where e: "trace (snd (updateContainerConfiguration_body lib h (nat n) w0)) = trace w0 @ evs"
    "list_all cfg_event evs" by blast
  obtain r w' where b: "updateContainerConfiguration_body lib h (nat n) w0 = (r, w')"
    by (cases "updateContainerConfiguration_body lib h (nat n) w0") auto
  have "snd (updateContainerConfiguration lib h this w) = w'"
    unfolding updateContainerConfiguration_valid[OF s] w0_def[symmetric] b
    by (cases r) simp_all
  with e b show ?thesis by (simp add: w0_def)
qed

text \<open>The events of the deploy step and of secret synchronization.\<close>

lemma wranglerDeploy_events:
  "trace (snd (wranglerDeploy h w)) =
     trace w @ Log ''Deploying to Cloudflare Workers...''
             # (if fst (wranglerDeploy h w) = Inr ()
                then [Exec deploy_command True, Log ''Wrangler deployment completed'']
                else [Exec deploy_command False])"
  by (simp add: wranglerDeploy_def execSync_def split: sum.splits)

lemma secrets_event_not_build: "secrets_event e \<Longrightarrow> \<not> is_build e"
  by (cases e) (auto simp: secrets_command_def build_command_def)

lemma updateSecrets_body_events:
  "\<exists>evs. trace (snd (updateSecrets_body h penv w)) = trace w @ evs \<and> list_all secrets_event evs"
  by (auto simp: updateSecrets_body_def existsSync_def createProdVarsFile_def writeFileSync_def
                 bind_w_def execSync_def Let_def split: sum.splits)

lemma updateSecrets_events:
  "\<exists>evs. trace (snd (updateSecrets h penv w)) = trace w @ evs \<and> list_all secrets_event evs"
proof -
  define w0 where "w0 = emit (Log ''Updating production secrets...'') w"
  from updateSecrets_body_events[of h penv w0]
  obtain evs where e: "trace (snd (updateSecrets_body h penv w0)) = trace w0 @ evs"
    "list_all secrets_event evs" by blast
  obtain r w' where b: "updateSecrets_body h penv w0 = (r, w')"
    by (cases "updateSecrets_body h penv w0") auto
  show ?thesis
    using e b unfolding updateSecrets_def w0_def[symmetric]
    by (cases r) (simp_all add: w0_def)
qed

lemma report_failure_events:
  "\<exists>evs. trace (report_failure error w) = trace w @ evs \<and> list_all is_error_report evs"
  by (auto simp: report_failure_def Let_def split: exn.splits option.splits)

lemma is_error_report_not: "is_error_report e \<Longrightarrow> \<not> is_build e \<and> \<not> is_secret_sync e"
  by (cases e) auto

lemma secrets_event_no_build: "list_all secrets_event evs \<Longrightarrow> \<not> list_ex is_build evs"
  by (induction evs) (auto dest: secrets_event_not_build)

lemma cfg_event_no_build: "list_all cfg_event evs \<Longrightarrow> \<not> list_ex is_build evs"
  by (induction evs) (auto dest: cfg_event_not)

lemma cfg_event_no_secret: "list_all cfg_event evs \<Longrightarrow> list_all (\<lambda>e. \<not> is_secret_sync e) evs"
  by (induction evs) (auto dest: cfg_event_not)

lemma error_report_no_build: "list_all is_error_report evs \<Longrightarrow> \<not> list_ex is_build evs"
  by (induction evs) (auto dest: is_error_report_not)

lemma error_report_no_secret:
  "list_all is_error_report evs \<Longrightarrow> list_all (\<lambda>e. \<not> is_secret_sync e) evs"
  by (induction evs) (auto dest: is_error_report_not)

lemma guarded_after: "guarded P g (a @ g # b) = guarded P g (a @ [g])"
  by (induction a) auto

lemma guarded_upto: "list_all (\<lambda>e. \<not> P e) a \<Longrightarrow> guarded P g (a @ g # b)"
  by (induction a) auto

text \<open>The events of a whole run, by the outcome of its two blocking steps.\<close>

lemma deploy_events:
  "\<exists>cfg tail.
     since w (snd (deploy lib h this penv w)) =
       Log ''Cloudflare Orange Build - Automated Deployment Starting...''
       # Log ''Step 6: Updating container configuration...'' # cfg @ tail
     \<and> list_all cfg_event cfg
     \<and> (list_all is_error_report tail
        \<or> (\<exists>rep. tail = [Log ''Step 7: Deploying to Cloudflare Workers...'',
                          Log ''Deploying to Cloudflare Workers...'', Exec deploy_command False] @ rep
                \<and> list_all is_error_report rep)
        \<or> (\<exists>sec. tail = [Log ''Step 7: Deploying to Cloudflare Workers...'',
                          Log ''Deploying to Cloudflare Workers...'', Exec deploy_command True] @ sec
                \<and> list_all secrets_event sec))"
proof -
  define w6 where "w6 = world_at_step6 w"
  have t6: "trace w6 = trace w @ [Log ''Cloudflare Orange Build - Automated Deployment Starting...'',
                                  Log ''Step 6: Updating container configuration...'']"
    by (simp add: w6_def world_at_step6_def)
  obtain cfg where c: "trace (snd (updateContainerConfiguration lib h this w6)) = trace w6 @ cfg"
      "list_all cfg_event cfg"
    using updateContainerConfiguration_events by blast
  show ?thesis
  proof (cases "fst (updateContainerConfiguration lib h this w6)")
    case (Inl e)
    obtain rep where r: "trace (report_failure e (snd (updateContainerConfiguration lib h this w6)))
         = trace (snd (updateContainerConfiguration lib h this w6)) @ rep" "list_all is_error_report rep"
      using report_failure_events by blast
    have "since w (snd (deploy lib h this penv w)) =
       Log ''Cloudflare Orange Build - Automated Deployment Starting...''
       # Log ''Step 6: Updating container configuration...'' # cfg @ (rep @ [Exit 1])"
      using Inl r(1) c(1) t6
      by (simp add: deploy_def deploy_steps_unfold w6_def[symmetric] since_def)
    moreover have "list_all is_error_report (rep @ [Exit 1])" using r(2) by simp
    ultimately show ?thesis using c(2) by blast
  next
    case cok: (Inr u)
    define w7 where "w7 = world_at_step7 lib h this w"
    have t7: "trace w7 = trace w6 @ cfg @ [Log ''Step 7: Deploying to Cloudflare Workers...'']"
      using c(1) by (simp add: w7_def world_at_step7_def w6_def)
    note d = wranglerDeploy_events[of h w7]
    show ?thesis
    proof (cases "fst (wranglerDeploy h w7)")
      case (Inl e)
      obtain rep where r: "trace (report_failure e (snd (wranglerDeploy h w7)))
           = trace (snd (wranglerDeploy h w7)) @ rep" "list_all is_error_report rep"
        using report_failure_events by blast
      have "since w (snd (deploy lib h this penv w)) =
         Log ''Cloudflare Orange Build - Automated Deployment Starting...''
         # Log ''Step 6: Updating container configuration...'' # cfg @
         ([Log ''Step 7: Deploying to Cloudflare Workers...'',
           Log ''Deploying to Cloudflare Workers...'', Exec deploy_command False] @ (rep @ [Exit 1]))"
        using Inl cok r(1) d t7 t6
        by (simp add: deploy_def deploy_steps_unfold w6_def[symmetric] w7_def[symmetric] since_def)
      moreover have "list_all is_error_report (rep @ [Exit 1])" using r(2) by simp
      ultimately show ?thesis using c(2) by blast
    next
      case (Inr v)
      define w8 where "w8 = world_at_step8 lib h this w"
      have t8: "trace w8 = trace w7 @ [Log ''Deploying to Cloudflare Workers...'',
                  Exec deploy_command True, Log ''Wrangler deployment completed'',
                  Log ''Step 8: Updating production secrets...'']"
        using d Inr by (simp add: w8_def world_at_step8_def w7_def)
      obtain sec where s: "trace (snd (updateSecrets h penv w8)) = trace w8 @ sec"
          "list_all secrets_event sec"
        using updateSecrets_events by blast
      have "since w (snd (deploy lib h this penv w)) =
         Log ''Cloudflare Orange Build - Automated Deployment Starting...''
         # Log ''Step 6: Updating container configuration...'' # cfg @
         ([Log ''Step 7: Deploying to Cloudflare Workers...'',
           Log ''Deploying to Cloudflare Workers...'', Exec deploy_command True] @
          ([Log ''Wrangler deployment completed'', Log ''Step 8: Updating production secrets...'']
           @ sec @ [Log ''Complete deployment finished successfully'',
                    Log ''Your Cloudflare Orange Build platform is now live!'']))"
        using Inr cok s(1) t8 t7 t6
        by (simp add: deploy_def deploy_steps_unfold w6_def[symmetric] w7_def[symmetric]
              w8_def[symmetric] since_def)
      moreover have "list_all secrets_event
          ([Log ''Wrangler deployment completed'', Log ''Step 8: Updating production secrets...'']
           @ sec @ [Log ''Complete deployment finished successfully'',
                    Log ''Your Cloudflare Orange Build platform is now live!''])"
        using s(2) by simp
      ultimately show ?thesis using c(2) by blast
    qed
  qed
qed

text \<open>
  Claim C2, as amended. A run of \<open>deploy\<close> executes no build command at all, and every
  event of secret synchronization (its first message, its look at the secrets file, the
  generation of that file, the upload) comes after a \<open>wrangler deploy\<close> that has completed
  successfully.
\<close>

theorem deploy_skips_build_and_deploys_before_secrets:
  "\<not> list_ex is_build (since w (snd (deploy lib h this penv w)))
   \<and> (\<forall>pre e post. since w (snd (deploy lib h this penv w)) = pre @ e # post \<and> is_secret_sync e
         \<longrightarrow> Exec deploy_command True \<in> set pre)"
proof -
  from deploy_events[of w lib h this penv] obtain cfg tail where
    s: "since w (snd (deploy lib h this penv w)) =
       Log ''Cloudflare Orange Build - Automated Deployment Starting...''
       # Log ''Step 6: Updating container configuration...'' # cfg @ tail"
     and c: "list_all cfg_event cfg"
     and t: "list_all is_error_report tail
        \<or> (\<exists>rep. tail = [Log ''Step 7: Deploying to Cloudflare Workers...'',
                          Log ''Deploying to Cloudflare Workers...'', Exec deploy_command False] @ rep
                \<and> list_all is_error_report rep)
        \<or> (\<exists>sec. tail = [Log ''Step 7: Deploying to Cloudflare Workers...'',
                          Log ''Deploying to Cloudflare Workers...'', Exec deploy_command True] @ sec
                \<and> list_all secrets_event sec)"
    by blast
  have cmd: "deploy_command \<noteq> build_command" "deploy_command \<noteq> secrets_command"
    by (simp_all add: deploy_command_def build_command_def secrets_command_def)
  have nb: "\<not> list_ex is_build tail"
    using t cmd by (auto dest: error_report_no_build secrets_event_no_build)
  have g: "guarded is_secret_sync (Exec deploy_command True) tail"
  proof -
    from t consider (a) "list_all is_error_report tail"
      | (b) rep where "tail = [Log ''Step 7: Deploying to Cloudflare Workers...'',
                          Log ''Deploying to Cloudflare Workers...'', Exec deploy_command False] @ rep"
                "list_all is_error_report rep"
      | (c) sec where "tail = [Log ''Step 7: Deploying to Cloudflare Workers...'',
                          Log ''Deploying to Cloudflare Workers...'', Exec deploy_command True] @ sec"
      by blast
    then show ?thesis
    proof cases
      case a
      then show ?thesis by (intro guarded_none error_report_no_secret)
    next
      case b
      have "list_all (\<lambda>e. \<not> is_secret_sync e) tail"
        using error_report_no_secret[OF b(2)] cmd unfolding b(1) by simp
      then show ?thesis by (rule guarded_none)
    next
      case c
      then show ?thesis using cmd by simp
    qed
  qed
  have g': "guarded is_secret_sync (Exec deploy_command True) (since w (snd (deploy lib h this penv w)))"
    unfolding s using guarded_append[OF cfg_event_no_secret[OF c] g] by simp
  have "\<not> list_ex is_build (since w (snd (deploy lib h this penv w)))"
    unfolding s using nb cfg_event_no_build[OF c] by simp
  moreover have "\<forall>pre e post. since w (snd (deploy lib h this penv w)) = pre @ e # post \<and> is_secret_sync e
         \<longrightarrow> Exec deploy_command True \<in> set pre"
    using guarded_split[OF g'] cmd by auto
  ultimately show ?thesis by simp
qed

lemmas deploy_run_defs = deploy_def deploy_steps_def bind_w_def updateContainerConfiguration_def
  wranglerDeploy_def updateSecrets_def updateSecrets_body_def existsSync_def execSync_def
  manager0_def env0_def host_ok_def world_with_secrets_def emit_def Let_def

lemma deploy_run_trace:
  "deploy jsonc_failing host_ok manager0 Map.empty world_with_secrets =
    (0, \<lparr> files = [prodVarsPath \<mapsto> File ''# secrets''],
          trace = [Log ''Cloudflare Orange Build - Automated Deployment Starting...'',
                   Log ''Step 6: Updating container configuration...'',
                   Log ''MAX_SANDBOX_INSTANCES not set, skipping container configuration update'',
                   Log ''Step 7: Deploying to Cloudflare Workers...'',
                   Log ''Deploying to Cloudflare Workers...'',
                   Exec deploy_command True,
                   Log ''Wrangler deployment completed'',
                   Log ''Step 8: Updating production secrets...'',
                   Log ''Updating production secrets...'',
                   ExistsSync prodVarsPath,
                   ExistsSync prodVarsPath,
                   Exec secrets_command True,
                   Log ''Production secrets updated successfully'',
                   Log ''Complete deployment finished successfully'',
                   Log ''Your Cloudflare Orange Build platform is now live!''] \<rparr>)"
  by (simp add: deploy_run_defs)

text \<open>
  Claim C2 as stated fails: a run on a machine where every command succeeds deploys and
  ends with status 0, and no build command is among its events.
\<close>

theorem deploy_run_executes_no_build:
  "fst (deploy jsonc_failing host_ok manager0 Map.empty world_with_secrets) = 0
   \<and> Exec deploy_command True
        \<in> set (trace (snd (deploy jsonc_failing host_ok manager0 Map.empty world_with_secrets)))
   \<and> \<not> list_ex is_build (trace (snd (deploy jsonc_failing host_ok manager0 Map.empty world_with_secrets)))"
  by (simp add: deploy_run_trace deploy_command_def build_command_def secrets_command_def)

theorem deploy_skips_build_and_deploys_before_secrets_witness:
  "since world_with_secrets (snd (deploy jsonc_failing host_ok manager0 Map.empty world_with_secrets))
     = [Log ''Cloudflare Orange Build - Automated Deployment Starting...'',
        Log ''Step 6: Updating container configuration...'',
        Log ''MAX_SANDBOX_INSTANCES not set, skipping container configuration update'',
        Log ''Step 7: Deploying to Cloudflare Workers...'',
        Log ''Deploying to Cloudflare Workers...'',
        Exec deploy_command True,
        Log ''Wrangler deployment completed'',
        Log ''Step 8: Updating production secrets...'']
       @ Log ''Updating production secrets...''
       # [ExistsSync prodVarsPath, ExistsSync prodVarsPath, Exec secrets_command True,
          Log ''Production secrets updated successfully'',
          Log ''Complete deployment finished successfully'',
          Log ''Your Cloudflare Orange Build platform is now live!'']
   \<and> is_secret_sync (Log ''Updating production secrets...'')
   \<and> Exec deploy_command True
        \<in> set [Log ''Cloudflare Orange Build - Automated Deployment Starting...'',
               Log ''Step 6: Updating container configuration...'',
               Log ''MAX_SANDBOX_INSTANCES not set, skipping container configuration update'',
               Log ''Step 7: Deploying to Cloudflare Workers...'',
               Log ''Deploying to Cloudflare Workers...'',
               Exec deploy_command True,
               Log ''Wrangler deployment completed'',
               Log ''Step 8: Updating production secrets...'']"
proof -
  have tw: "trace world_with_secrets = []" by (simp add: world_with_secrets_def)
  have s: "since world_with_secrets (snd (deploy jsonc_failing host_ok manager0 Map.empty world_with_secrets))
     = [Log ''Cloudflare Orange Build - Automated Deployment Starting...'',
        Log ''Step 6: Updating container configuration...'',
        Log ''MAX_SANDBOX_INSTANCES not set, skipping container configuration update'',
        Log ''Step 7: Deploying to Cloudflare Workers...'',
        Log ''Deploying to Cloudflare Workers...'',
        Exec deploy_command True,
        Log ''Wrangler deployment completed'',
        Log ''Step 8: Updating production secrets...'']
       @ Log ''Updating production secrets...''
       # [ExistsSync prodVarsPath, ExistsSync prodVarsPath, Exec secrets_command True,
          Log ''Production secrets updated successfully'',
          Log ''Complete deployment finished successfully'',
          Log ''Your Cloudflare Orange Build platform is now live!'']"
    by (simp add: deploy_run_trace since_def tw)
  have p: "is_secret_sync (Log ''Updating production secrets...'')" by simp
  from deploy_skips_build_and_deploys_before_secrets
         [of world_with_secrets jsonc_failing host_ok manager0 Map.empty] s p
  have "Exec deploy_command True
        \<in> set [Log ''Cloudflare Orange Build - Automated Deployment Starting...'',
               Log ''Step 6: Updating container configuration...'',
               Log ''MAX_SANDBOX_INSTANCES not set, skipping container configuration update'',
               Log ''Step 7: Deploying to Cloudflare Workers...'',
               Log ''Deploying to Cloudflare Workers...'',
               Exec deploy_command True,
               Log ''Wrangler deployment completed'',
               Log ''Step 8: Updating production secrets...'']"
    by blast
  with s p show ?thesis by blast
qed

lemma findIndex_from_none:
  "\<forall>c \<in> set cs. \<not> is_sandbox c \<Longrightarrow> JNull \<notin> set cs \<Longrightarrow> findIndex_from i cs = Inr None"
  by (induction i cs rule: findIndex_from.induct) auto

lemma findIndex_from_null:
  "\<forall>c \<in> set cs. \<not> is_sandbox c \<Longrightarrow> JNull \<in> set cs \<Longrightarrow> findIndex_from i cs = Inl TypeError"
  by (induction i cs rule: findIndex_from.induct) auto

text \<open>
  Claim C3, as amended. With a valid override and a readable \<open>wrangler.jsonc\<close>, when what
  \<open>parse\<close> returns has no array \<open>containers\<close>, or the array has no entry of class
  \<open>UserAppSandboxService\<close>, \<open>updateContainerConfiguration\<close> reads the file and writes
  nothing, so no field is created. Unless it reads a property of \<open>null\<close> or \<open>undefined\<close> on
  the way, it returns without an error after a warning, which is its last event. When it
  does (the document is empty or \<open>null\<close>, or an entry of the array is \<open>null\<close>), the step
  fails with a \<open>DeploymentError\<close>.
\<close>

theorem updateContainerConfiguration_without_target_never_writes:
  assumes "MAX_SANDBOX_INSTANCES (env this) = Some s" "s \<noteq> []" "parseInt s = Some n" "0 < n"
    and "files w wranglerPath = Some (File content)" "\<not> unreadable h wranglerPath"
    and "parse lib content = Inr cfg"
    and "no_target cfg"
  shows "files (snd (updateContainerConfiguration lib h this w)) = files w
       \<and> (if null_entry cfg
          then fst (updateContainerConfiguration lib h this w)
                 = Inl (DeploymentError ''Failed to update container configuration'' (Some TypeError))
             \<and> since w (snd (updateContainerConfiguration lib h this w))
                 = [Log (''Updating container configuration: MAX_SANDBOX_INSTANCES='' @ number_text h (nat n)),
                    ReadFile wranglerPath]
          else fst (updateContainerConfiguration lib h this w) = Inr ()
             \<and> (\<exists>m. since w (snd (updateContainerConfiguration lib h this w))
                 = [Log (''Updating container configuration: MAX_SANDBOX_INSTANCES='' @ number_text h (nat n)),
                    ReadFile wranglerPath, Warn m]))"
proof -
  define w0 where "w0 = emit (Log (''Updating container configuration: MAX_SANDBOX_INSTANCES='' @
                              number_text h (nat n))) w"
  define w1 where "w1 = emit (ReadFile wranglerPath) w0"
  have r: "readFileSync h wranglerPath w0 = (Inr content, w1)"
    using assms(5,6) by (simp add: readFileSync_def w0_def w1_def)
  have body: "updateContainerConfiguration_body lib h (nat n) w0
        = (if null_entry cfg then (Inl TypeError, w1)
           else (case cfg of
                   Some (JObject kvs) \<Rightarrow>
                     (case map_of kvs ''containers'' of
                        Some (JArray cs) \<Rightarrow>
                          (Inr (), emit (Warn ''UserAppSandboxService container not found in wrangler.jsonc'') w1)
                      | _ \<Rightarrow> (Inr (), emit (Warn ''No containers configuration found in wrangler.jsonc'') w1))
                 | _ \<Rightarrow> (Inr (), emit (Warn ''No containers configuration found in wrangler.jsonc'') w1)))"
  proof (cases cfg)
    case None
    then show ?thesis
      using r assms(7) by (simp add: updateContainerConfiguration_body_def bind_w_def null_entry_def)
  next
    case (Some v)
    note cfg = this
    show ?thesis
    proof (cases v)
      case (JObject kvs)
      show ?thesis
      proof (cases "map_of kvs ''containers''")
        case None
        then show ?thesis
          using r assms(7) cfg JObject
          by (simp add: updateContainerConfiguration_body_def bind_w_def null_entry_def)
      next
        case (Some u)
        show ?thesis
        proof (cases u)
          case (JArray cs)
          with Some cfg JObject assms(8) have ns: "\<forall>c \<in> set cs. \<not> is_sandbox c"
            by (simp add: no_target_def)
          show ?thesis
          proof (cases "JNull \<in> set cs")
            case True
            from findIndex_from_null[OF ns True] Some JArray True show ?thesis
              using r assms(7) cfg JObject
              by (simp add: updateContainerConfiguration_body_def bind_w_def null_entry_def)
          next
            case False
            with ns have "findIndex_from 0 cs = Inr None" by (rule findIndex_from_none)
            with Some JArray False show ?thesis
              using r assms(7) cfg JObject
              by (simp add: updateContainerConfiguration_body_def bind_w_def null_entry_def)
          qed
        qed (use Some r assms(7) cfg JObject in
              \<open>simp_all add: updateContainerConfiguration_body_def bind_w_def null_entry_def\<close>)
      qed
    qed (use r assms(7) cfg in
          \<open>simp_all add: updateContainerConfiguration_body_def bind_w_def null_entry_def\<close>)
  qed
  show ?thesis
  proof (cases "null_entry cfg")
    case True
    with body have b: "updateContainerConfiguration_body lib h (nat n) w0 = (Inl TypeError, w1)" by simp
    have "updateContainerConfiguration lib h this w
            = (Inl (DeploymentError ''Failed to update container configuration'' (Some TypeError)), w1)"
      unfolding updateContainerConfiguration_valid[OF assms(1-4)] w0_def[symmetric] b by simp
    with True show ?thesis by (simp add: w0_def w1_def since_def emit_def)
  next
    case False
    with body obtain m where b: "updateContainerConfiguration_body lib h (nat n) w0
           = (Inr (), emit (Warn m) w1)"
      by (auto split: option.splits jvalue.splits)
    have "updateContainerConfiguration lib h this w = (Inr (), emit (Warn m) w1)"
      unfolding updateContainerConfiguration_valid[OF assms(1-4)] w0_def[symmetric] b by simp
    with False show ?thesis by (simp add: w0_def w1_def since_def emit_def)
  qed
qed

lemma parseInt_25: "parseInt ''25'' = Some 25"
  by (simp add: parseInt_def isWhiteSpace_def isDigit_def digits_val_def digit_val_def Let_def)

lemma string_of_nat_25: "string_of_nat 25 = ''25''"
  by (simp add: string_of_nat.simps digit_char_def)

lemma number_text_25: "number_text h 25 = ''25''"
  by (simp add: number_text_def safe_integer_def string_of_nat_25)

text \<open>
  Claim C3 as stated fails: for a document without \<open>containers\<close> and the override 25 the
  step does not fail; it warns and returns.
\<close>

theorem updateContainerConfiguration_without_containers_does_not_fail:
  "updateContainerConfiguration (jsonc_reading (Some (JObject [(''name'', JString ''orange-build'')])))
      host_ok (manager_override ''25'') world_without_containers
   = (Inr (),
      world_without_containers
        \<lparr> trace := [Log ''Updating container configuration: MAX_SANDBOX_INSTANCES=25'',
                    ReadFile wranglerPath,
                    Warn ''No containers configuration found in wrangler.jsonc''] \<rparr>)"
  by (simp add: updateContainerConfiguration_def updateContainerConfiguration_body_def
        manager_override_def manager0_def env0_def parseInt_25 number_text_25 readFileSync_def
        world_without_containers_def host_ok_def jsonc_reading_def bind_w_def emit_def)

theorem updateContainerConfiguration_without_target_never_writes_witness:
  "no_target (Some (JObject [(''name'', JString ''orange-build'')]))
   \<and> \<not> null_entry (Some (JObject [(''name'', JString ''orange-build'')]))
   \<and> fst (updateContainerConfiguration (jsonc_reading (Some (JObject [(''name'', JString ''orange-build'')])))
             host_ok (manager_override ''25'') world_without_containers) = Inr ()
   \<and> files (snd (updateContainerConfiguration (jsonc_reading (Some (JObject [(''name'', JString ''orange-build'')])))
             host_ok (manager_override ''25'') world_without_containers)) = files world_without_containers
   \<and> no_target (Some (JObject other_container)) \<and> \<not> null_entry (Some (JObject other_container))
   \<and> fst (updateContainerConfiguration (jsonc_reading (Some (JObject other_container)))
             host_ok (manager_override ''25'') world_without_containers) = Inr ()
   \<and> no_target (Some (JObject null_container)) \<and> null_entry (Some (JObject null_container))
   \<and> fst (updateContainerConfiguration (jsonc_reading (Some (JObject null_container)))
             host_ok (manager_override ''25'') world_without_containers)
       = Inl (DeploymentError ''Failed to update container configuration'' (Some TypeError))
   \<and> files (snd (updateContainerConfiguration (jsonc_reading (Some (JObject null_container)))
             host_ok (manager_override ''25'') world_without_containers)) = files world_without_containers
   \<and> no_target None \<and> null_entry None
   \<and> fst (updateContainerConfiguration (jsonc_reading None)
             host_ok (manager_override ''25'') world_without_containers)
       = Inl (DeploymentError ''Failed to update container configuration'' (Some TypeError))"
proof -
  have a: "MAX_SANDBOX_INSTANCES (env (manager_override ''25'')) = Some ''25''"
    by (simp add: manager_override_def)
  have b: "''25'' \<noteq> []" "(0::int) < 25" by simp_all
  have c: "files world_without_containers wranglerPath
             = Some (File (''{ '' @ dq @ ''name'' @ dq @ '': '' @ dq @ ''orange-build'' @ dq @ '' }''))"
    "\<not> unreadable host_ok wranglerPath"
    by (simp_all add: world_without_containers_def host_ok_def)
  have d: "parse (jsonc_reading v)
             (''{ '' @ dq @ ''name'' @ dq @ '': '' @ dq @ ''orange-build'' @ dq @ '' }'') = Inr v" for v
    by (simp add: jsonc_reading_def)
  have e1: "no_target (Some (JObject [(''name'', JString ''orange-build'')]))"
    "\<not> null_entry (Some (JObject [(''name'', JString ''orange-build'')]))"
    by (simp_all add: no_target_def null_entry_def)
  have e2: "no_target (Some (JObject other_container))" "\<not> null_entry (Some (JObject other_container))"
    by (simp_all add: no_target_def null_entry_def other_container_def)
  have e3: "no_target (Some (JObject null_container))" "null_entry (Some (JObject null_container))"
    by (simp_all add: no_target_def null_entry_def null_container_def)
  have e4: "no_target None" "null_entry None"
    by (simp_all add: no_target_def null_entry_def)
  note t = updateContainerConfiguration_without_target_never_writes[OF a b(1) parseInt_25 b(2) c d]
  from t[OF e1(1)] t[OF e2(1)] t[OF e3(1)] t[OF e4(1)] e1 e2 e3 e4
  show ?thesis by simp
qed

theorem updateContainerConfiguration_skips_invalid_override_witness:
  "invalid_override (MAX_SANDBOX_INSTANCES (env (manager_override ''abc'')))
   \<and> invalid_override (MAX_SANDBOX_INSTANCES (env (manager_override ''-3'')))
   \<and> invalid_override (MAX_SANDBOX_INSTANCES (env manager0))
   \<and> fst (updateContainerConfiguration jsonc_failing host_ok (manager_override ''abc'') world_without_containers)
       = Inr ()
   \<and> files (snd (updateContainerConfiguration jsonc_failing host_ok (manager_override ''abc'')
                   world_without_containers)) = files world_without_containers
   \<and> \<not> list_ex is_file_access
         (since world_without_containers
            (snd (updateContainerConfiguration jsonc_failing host_ok (manager_override ''-3'')
                    world_without_containers)))"
proof -
  have a: "invalid_override (MAX_SANDBOX_INSTANCES (env (manager_override ''abc'')))"
    by (simp add: invalid_override_def manager_override_def parseInt_examples)
  have b: "invalid_override (MAX_SANDBOX_INSTANCES (env (manager_override ''-3'')))"
    by (simp add: invalid_override_def manager_override_def parseInt_examples)
  have c: "invalid_override (MAX_SANDBOX_INSTANCES (env manager0))"
    by (simp add: invalid_override_def manager0_def env0_def)
  from updateContainerConfiguration_skips_invalid_override[OF a, of jsonc_failing host_ok world_without_containers]
       updateContainerConfiguration_skips_invalid_override[OF b, of jsonc_failing host_ok world_without_containers]
       a b c
  show ?thesis by simp
qed

theorem non_blocking_steps_never_fail_the_run_witness:
  "fst (deployTemplates_body host_broken manager0
          (emit (Log (''Setting up templates from: '' @ TEMPLATES_REPOSITORY (env manager0))) empty_world))
     = Inl (Thrown None (Some ''EACCES''))
   \<and> fst (deployTemplates host_broken manager0 empty_world) = Inr ()
   \<and> last (trace (snd (deployTemplates host_broken manager0 empty_world))) = Warn ''EACCES''
   \<and> files empty_world prodVarsPath = None \<and> unwritable host_broken prodVarsPath
   \<and> fst (updateSecrets host_broken Map.empty empty_world) = Inr ()
   \<and> last (trace (snd (updateSecrets host_broken Map.empty empty_world)))
       = Warn ''You may need to update secrets manually if required''
   \<and> fst (deploy jsonc_failing (host_ok\<lparr> unwritable := (\<lambda>p. True) \<rparr>) manager0 Map.empty empty_world) = 0"
proof -
  have a: "fst (deployTemplates_body host_broken manager0
          (emit (Log (''Setting up templates from: '' @ TEMPLATES_REPOSITORY (env manager0))) empty_world))
     = Inl (Thrown None (Some ''EACCES''))"
    by (simp add: deployTemplates_body_def existsSync_def mkdirSync_def host_broken_def empty_world_def
          bind_w_def emit_def Let_def)
  have b: "files empty_world prodVarsPath = None \<and> unwritable host_broken prodVarsPath"
    by (simp add: empty_world_def host_broken_def)
  have c: "fst (updateContainerConfiguration jsonc_failing (host_ok\<lparr> unwritable := (\<lambda>p. True) \<rparr>)
                   manager0 (world_at_step6 empty_world)) = Inr ()
        \<and> fst (wranglerDeploy (host_ok\<lparr> unwritable := (\<lambda>p. True) \<rparr>)
                 (world_at_step7 jsonc_failing (host_ok\<lparr> unwritable := (\<lambda>p. True) \<rparr>) manager0 empty_world))
            = Inr ()"
    by (simp add: updateContainerConfiguration_def manager0_def env0_def wranglerDeploy_def
          execSync_def host_ok_def)
  note t = non_blocking_steps_never_fail_the_run
      [where h=host_broken and this=manager0 and w=empty_world and penv=Map.empty]
  note t2 = non_blocking_steps_never_fail_the_run
      [where h="host_ok\<lparr> unwritable := (\<lambda>p. True) \<rparr>" and this=manager0 and w=empty_world
         and penv=Map.empty and lib=jsonc_failing]
  from t a b have
    "fst (deployTemplates host_broken manager0 empty_world) = Inr ()"
    "last (trace (snd (deployTemplates host_broken manager0 empty_world))) = Warn (describe (Thrown None (Some ''EACCES'')))"
    "fst (updateSecrets host_broken Map.empty empty_world) = Inr ()"
    "last (trace (snd (updateSecrets host_broken Map.empty empty_world)))
       = Warn ''You may need to update secrets manually if required''"
    by blast+
  moreover from t2 c have
    "fst (deploy jsonc_failing (host_ok\<lparr> unwritable := (\<lambda>p. True) \<rparr>) manager0 Map.empty empty_world) = 0"
    by blast
  ultimately show ?thesis using a b by (simp add: describe_def)
qed

section \<open>The patch of the configuration document\<close>

subsection \<open>The scanner\<close>

lemma print_tokens_Nil [simp]: "print_tokens [] = []"
  by (simp add: print_tokens_def)

lemma print_tokens_Cons [simp]: "print_tokens ((tr, t) # ts) = tr @ token_text t @ print_tokens ts"
  by (simp add: print_tokens_def)

lemma print_tokens_append [simp]: "print_tokens (xs @ ys) = print_tokens xs @ print_tokens ys"
  by (simp add: print_tokens_def)


lemma ex_append_self: "\<exists>p. s = p @ s"
  by simp








lemma same_start_Nil [simp]: "same_start [] r' = (r' = [])"
  by (simp add: same_start_def)

lemma same_start_Cons:
  "same_start (c # x) r' =
     (\<exists>c' x'. r' = c' # x' \<and> (c = c' \<or> (\<not> is_delimiter c \<and> \<not> is_delimiter c')))"
  by (cases r') (simp_all add: same_start_def)





























lemma same_start_refl: "same_start x x"
  by (cases x) (simp_all add: same_start_Cons)








subsection \<open>Offsets\<close>






subsection \<open>The values do not depend on what the numbers carry\<close>

lemma map_token_simps_rev [simp]:
  "map_token f t = RBracket \<longleftrightarrow> t = RBracket"
  "map_token f t = RBrace \<longleftrightarrow> t = RBrace"
  "map_token f t = Comma \<longleftrightarrow> t = Comma"
  "map_token f t = Colon \<longleftrightarrow> t = Colon"
  by (cases t; simp)+





subsection \<open>Where the numbers of a tree come from\<close>









subsection \<open>One edit\<close>


subsection \<open>The patch of a number\<close>

lemma relocate_target [simp]: "relocate off old new (off, w) = (off, new)"
  by (simp add: relocate_def)
















end
